theory Spec2Isabelle
  imports Complex_Main "HOL-Library.AList"
begin

section \<open>The measurement engine of qcodes/measurement.py\<close>

text \<open>
  The theory embeds the classes \<^verbatim>\<open>Measurement\<close> and \<^verbatim>\<open>Sweep\<close> of
  \<^verbatim>\<open>src/qcodes/measurement.py\<close>. A Python object is a record held in a store and named
  by a number; a method takes the number of \<^verbatim>\<open>self\<close> and the store and returns its
  outcome together with the store it leaves behind, also when it raises: what a method
  wrote before the exception stays written.
\<close>

subsection \<open>Values, targets and outcomes\<close>

type_synonym address = "int list"
type_synonym sid = nat
type_synonym tid = nat
type_synonym oid = nat

text \<open>
  The values the engine handles. \<open>VArray shape\<close> is a numpy array, of which only the shape
  matters to the engine; \<open>VNpInt\<close>, \<open>VNpFloat\<close> and \<open>VNpBool\<close> are the numpy scalar
  types; \<open>VStr\<close> stands for the values that are none of \<^verbatim>\<open>RAW_VALUE_TYPES\<close>.
\<close>

datatype val =
    VNone
  | VBool bool
  | VInt int
  | VFloat real
  | VArray "nat list"
  | VNpInt int
  | VNpFloat real
  | VNpBool bool
  | VStr string

text \<open>
  The objects that can be masked, by their class as \<^verbatim>\<open>Measurement.mask\<close> tests it
  (\<^verbatim>\<open>ParameterNode\<close>, \<^verbatim>\<open>Parameter\<close>, \<^verbatim>\<open>dict\<close>, anything else), and the three
  kinds of slot a mask overrides: the value of a parameter, an attribute of an object,
  a key of a mapping. Objects are compared by identity.
\<close>

datatype obj = Node oid | Param oid | Dict oid | Other oid

datatype target = ParameterT oid | AttrT obj string | KeyT oid string

datatype error =
    NotContextManager
  | StopRequested
  | WrongThread
  | WrongMeasurement address string string
  | MissingName
  | UnsupportedType
  | TooManyArrays nat
  | MissingParameterOrName
  | NameConflict string string
  | WrongSetArrayCount nat nat
  | InvalidDictName
  | MaskSyntaxError
  | AssertionError
  | LookupError target
  | SetRejected target val
  | IndexError
  | KeyError
  | AttributeError
  | NotImplementedError
  | StopIteration
  | NoRunningMeasurement
  | DedicatedThreadRequired
  | StorageError
  | ActionFailed nat

text \<open>
  \<open>StopRequested\<close> is Python's \<^verbatim>\<open>SystemExit\<close>, the only error here that is not a
  subclass of \<^verbatim>\<open>Exception\<close>: an \<^verbatim>\<open>except Exception\<close> clause lets it through.
\<close>

definition is_Exception :: "error \<Rightarrow> bool" where
  "is_Exception e = (e \<noteq> StopRequested)"

text \<open>
  A call returns, raises, or never returns (\<open>Hang\<close>: the measurement is paused and
  nobody will resume it).
\<close>

datatype 'a result = Return 'a | Raise error | Hang

subsection \<open>The objects\<close>

record parameter =
  p_id :: oid
  p_name :: string

record data_array =
  da_name :: string
  da_full_name :: string
  da_array_id :: string
  da_label :: "string option"
  da_unit :: "string option"
  da_shape :: "nat list"
  da_is_setpoint :: bool
  da_action_indices :: address
  da_set_arrays :: "string list"

datatype metadata =
    MetaConfig
  | MetaMeasurementType
  | MetaStation
  | MetaCell
  | MetaDataGroups "(address \<times> string) list"
  | MetaTStop
  | MetaTimings

text \<open>
  Modelled from the spec: the Dataset collaborator (\<^verbatim>\<open>qcodes.data.data_set\<close> is not
  among the sources). It holds \<^verbatim>\<open>arrays: {id -> array}\<close> and the \<^verbatim>\<open>active\<close> flag, and
  records what the engine asks of it: the metadata added, the number of
  \<^verbatim>\<open>save_metadata\<close> calls, the \<^verbatim>\<open>store\<close> calls,
  whether \<^verbatim>\<open>finalize\<close> ran and whether the formatter closed the file.
  \<open>ds_finalize_ok\<close> says whether \<^verbatim>\<open>finalize\<close> will succeed.
\<close>

record dataset =
  ds_arrays :: "(string \<times> data_array) list"
  ds_active :: bool
  ds_finalized :: bool
  ds_file_closed :: bool
  ds_metadata :: "metadata list"
  ds_saved :: nat
  ds_stored :: "(int list \<times> (string \<times> val) list) list"
  ds_finalize_ok :: bool

text \<open>
  A mask record. The source keeps a dict with the keys \<^verbatim>\<open>type\<close>, \<^verbatim>\<open>obj\<close>,
  \<^verbatim>\<open>attr\<close> or \<^verbatim>\<open>key\<close>, \<^verbatim>\<open>original_value\<close> and \<^verbatim>\<open>value\<close>; the first three are the
  \<open>target\<close> here.
\<close>

record mask_record =
  m_target :: target
  original_value :: val
  m_value :: val

text \<open>
  An except or final action is a callable of the user. Of what it does the model keeps
  its identity and the exception it raises, if any.
\<close>

datatype hook = Hook nat "error option"

record session =
  msmt_name :: string
  dataset :: "dataset option"
  loop_shape :: "nat list"
  loop_indices :: "int list"
  action_indices :: address
  data_groups :: "(address \<times> sid) list"
  actions :: "address \<rightharpoonup> obj option"
  action_names :: "address \<rightharpoonup> string"
  is_context_manager :: bool
  is_paused :: bool
  is_stopped :: bool
  notify :: bool
  force_cell_thread :: bool
  final_actions :: "hook list"
  except_actions :: "hook list"
  masked_properties :: "mask_record list"
  arrays_ref :: "sid option"

datatype log_entry =
    LogStarted sid
  | LogFinished sid
  | LogMeasurementError sid error
  | LogActionFailed string nat
  | LogCouldNotUnmask target val val
  | LogCouldNotNotify

datatype control = Pause | Resume | Stop

text \<open>
  A \<^verbatim>\<open>Sweep\<close> object: \<open>sweep\<close> as \<^verbatim>\<open>__init__\<close> leaves it, \<open>sweep_iter\<close> once
  \<^verbatim>\<open>__iter__\<close> has set \<^verbatim>\<open>loop_index\<close> and \<^verbatim>\<open>iterator\<close>. The sequence is a list of
  values, or the \<^verbatim>\<open>SweepValues\<close> of a parameter.
\<close>

datatype sequence = Values "val list" | SweepValues parameter "val list"

record sweep =
  sw_name :: "string option"
  sw_unit :: "string option"
  sw_sequence :: sequence
  sw_dimension :: nat
  sw_reverse :: bool
  sw_restore :: bool
  sw_set_array :: data_array

record sweep_iter = sweep +
  sw_loop_index :: int
  sw_iterator :: "val list"

text \<open>
  The store. \<open>sessions\<close> holds the \<^verbatim>\<open>Measurement\<close> objects and \<open>next_sid\<close> is the next
  unused identity; \<open>running_measurement\<close>, \<open>measurement_thread\<close>,
  \<open>class_final_actions\<close>, \<open>class_except_actions\<close>, \<open>max_arrays\<close> and
  \<open>notify_function\<close> are the class attributes of \<^verbatim>\<open>Measurement\<close>.
  \<open>data_arrays_heap\<close> and \<open>set_arrays_heap\<close> hold the \<^verbatim>\<open>data_arrays\<close> and
  \<^verbatim>\<open>set_arrays\<close> dicts, named by the session that created them, since a nested
  measurement refers to the dicts of the running one.

  \<open>cells\<close> is the current value of every maskable slot (no value: the attribute or key
  does not exist, or the parameter cannot be read) and \<open>accepts\<close> is the set contract of
  the slot: a write of a value the slot does not accept raises. \<open>journal\<close> lists the
  writes that went through, \<open>msmt_log\<close> the messages sent to the logger, and
  \<open>action_trace\<close> the except and final actions run, each with the running measurement
  it could see.

  \<open>array_writes\<close> lists the values written into set arrays directly
  (\<^verbatim>\<open>set_array[loop_indices] = value\<close>). \<open>sweeps\<close> holds the \<^verbatim>\<open>Sweep\<close> objects that are
  being iterated and \<open>next_sweep\<close> is the next unused identity.

  \<open>pending\<close> is what the other threads do while the measurement thread sleeps in a pause
  loop: one batch of control calls for each \<^verbatim>\<open>sleep(0.1)\<close>.
\<close>

record world =
  sessions :: "sid \<Rightarrow> session"
  next_sid :: sid
  running_measurement :: "sid option"
  measurement_thread :: "tid option"
  class_final_actions :: "hook list"
  class_except_actions :: "hook list"
  max_arrays :: nat
  notify_function :: "hook option"
  data_arrays_heap :: "sid \<Rightarrow> (address \<times> data_array) list"
  set_arrays_heap :: "sid \<Rightarrow> (address \<times> data_array) list"
  cells :: "target \<rightharpoonup> val"
  accepts :: "target \<Rightarrow> val \<Rightarrow> bool"
  node_parameters :: "oid \<Rightarrow> string \<rightharpoonup> oid"
  journal :: "(target \<times> val) list"
  array_writes :: "(string \<times> int list \<times> val) list"
  sweeps :: "nat \<Rightarrow> sweep_iter"
  next_sweep :: nat
  msmt_log :: "log_entry list"
  action_trace :: "(nat \<times> sid option) list"
  pending :: "control list list"
  using_ipython :: bool
  executed_from_cell :: bool
  main_thread :: tid
  station_default :: bool
  new_data_ok :: bool

definition upd_session :: "sid \<Rightarrow> (session \<Rightarrow> session) \<Rightarrow> world \<Rightarrow> world" where
  "upd_session i f w = w\<lparr>sessions := (sessions w)(i := f (sessions w i))\<rparr>"

text \<open>\<^verbatim>\<open>Measurement.__init__\<close>.\<close>

definition Measurement :: "string \<Rightarrow> bool \<Rightarrow> bool \<Rightarrow> world \<Rightarrow> session" where
  "Measurement nm force_cell nfy w =
     \<lparr>msmt_name = nm, dataset = None, loop_shape = [], loop_indices = [],
      action_indices = [], data_groups = [], actions = Map.empty,
      action_names = Map.empty, is_context_manager = False, is_paused = False,
      is_stopped = False, notify = nfy,
      force_cell_thread = (force_cell \<and> using_ipython w),
      final_actions = [], except_actions = [], masked_properties = [],
      arrays_ref = None\<rparr>"

text \<open>
  In the source \<^verbatim>\<open>loop_shape\<close>, \<^verbatim>\<open>loop_indices\<close> and \<^verbatim>\<open>action_indices\<close> are
  \<^verbatim>\<open>None\<close> until the measurement is entered; they are read through the running
  measurement only, which has been entered, and the model starts them empty.
\<close>

subsection \<open>The action registry\<close>

text \<open>\<^verbatim>\<open>Measurement._verify_action\<close>.\<close>

definition verify_action ::
  "sid \<Rightarrow> obj option \<Rightarrow> string \<Rightarrow> bool \<Rightarrow> world \<Rightarrow> unit result \<times> world" where
  "verify_action self action nm add_if_new w =
     (let s = sessions w self; a = action_indices s in
      if actions s a = None then
        (if add_if_new
         then (Return (), upd_session self
                 (\<lambda>s. s\<lparr>actions := (actions s)(a \<mapsto> action),
                        action_names := (action_names s)(a \<mapsto> nm)\<rparr>) w)
         else (Return (), w))
      else
        (case action_names s a of
           None \<Rightarrow> (Raise KeyError, w)
         | Some expected \<Rightarrow>
             if nm \<noteq> expected then (Raise (WrongMeasurement a expected nm), w)
             else (Return (), w)))"

subsection \<open>Moving the action indices\<close>

text \<open>
  \<^verbatim>\<open>Measurement.skip\<close> and \<^verbatim>\<open>Measurement.revert\<close>: \<open>skip_here\<close> and \<open>revert_here\<close>
  are the \<^verbatim>\<open>else\<close> branches, run on the running measurement; the methods themselves
  hand over to the running measurement when \<^verbatim>\<open>self\<close> is not it.
\<close>

definition adjust_last :: "int \<Rightarrow> address \<Rightarrow> address" where
  "adjust_last d a = butlast a @ [last a + d]"

definition skip_here :: "sid \<Rightarrow> int \<Rightarrow> world \<Rightarrow> address result \<times> world" where
  "skip_here self N w =
     (let a = action_indices (sessions w self) in
      if a = [] then (Raise IndexError, w)
      else (Return (adjust_last N a),
            upd_session self (\<lambda>s. s\<lparr>action_indices := adjust_last N a\<rparr>) w))"

definition skip :: "sid \<Rightarrow> int \<Rightarrow> world \<Rightarrow> address result \<times> world" where
  "skip self N w =
     (if running_measurement w \<noteq> Some self then
        (case running_measurement w of
           None \<Rightarrow> (Raise AttributeError, w)
         | Some r \<Rightarrow> skip_here r N w)
      else skip_here self N w)"

definition revert_here :: "sid \<Rightarrow> int \<Rightarrow> world \<Rightarrow> address result \<times> world" where
  "revert_here self N w =
     (let a = action_indices (sessions w self) in
      if a = [] then (Raise IndexError, w)
      else (Return (adjust_last (- N) a),
            upd_session self (\<lambda>s. s\<lparr>action_indices := adjust_last (- N) a\<rparr>) w))"

definition revert :: "sid \<Rightarrow> int \<Rightarrow> world \<Rightarrow> address result \<times> world" where
  "revert self N w =
     (if running_measurement w \<noteq> Some self then
        (case running_measurement w of
           None \<Rightarrow> (Raise AttributeError, w)
         | Some r \<Rightarrow> revert_here r N w)
      else revert_here self N w)"

text \<open>\<^verbatim>\<open>Measurement.step_out\<close>.\<close>

definition step_out_here :: "sid \<Rightarrow> bool \<Rightarrow> world \<Rightarrow> unit result \<times> world" where
  "step_out_here self reduce_dimension w =
     (let w1 = (if reduce_dimension
                then upd_session self
                       (\<lambda>s. s\<lparr>loop_shape := butlast (loop_shape s),
                              loop_indices := butlast (loop_indices s)\<rparr>) w
                else w);
          a = butlast (action_indices (sessions w1 self))
      in if a = [] then (Raise IndexError, w1)
         else (Return (), upd_session self (\<lambda>s. s\<lparr>action_indices := adjust_last 1 a\<rparr>) w1))"

definition step_out :: "sid \<Rightarrow> bool \<Rightarrow> world \<Rightarrow> unit result \<times> world" where
  "step_out self reduce_dimension w =
     (if running_measurement w \<noteq> Some self then
        (case running_measurement w of
           None \<Rightarrow> (Raise AttributeError, w)
         | Some r \<Rightarrow> step_out_here r reduce_dimension w)
      else step_out_here self reduce_dimension w)"

subsection \<open>Masking\<close>

text \<open>
  \<^verbatim>\<open>_mask_attr\<close>, \<^verbatim>\<open>_mask_parameter\<close> and \<^verbatim>\<open>_mask_key\<close> have one body: read the
  slot (\<^verbatim>\<open>getattr\<close>, \<^verbatim>\<open>param()\<close>, \<^verbatim>\<open>obj[key]\<close>), write the masked value, append
  the record to \<^verbatim>\<open>self._masked_properties\<close>, return the original value.
\<close>

definition write_target :: "target \<Rightarrow> val \<Rightarrow> world \<Rightarrow> unit result \<times> world" where
  "write_target t v w =
     (if accepts w t v
      then (Return (), w\<lparr>cells := (cells w)(t \<mapsto> v), journal := journal w @ [(t, v)]\<rparr>)
      else (Raise (SetRejected t v), w))"

definition push_mask :: "sid \<Rightarrow> target \<Rightarrow> val \<Rightarrow> world \<Rightarrow> val result \<times> world" where
  "push_mask self t v w =
     (case cells w t of
        None \<Rightarrow> (Raise (LookupError t), w)
      | Some original \<Rightarrow>
          (case write_target t v w of
             (Return _, w1) \<Rightarrow>
               (Return original,
                upd_session self
                  (\<lambda>s. s\<lparr>masked_properties := masked_properties s @
                           [\<lparr>m_target = t, original_value = original, m_value = v\<rparr>]\<rparr>) w1)
           | (Raise e, w1) \<Rightarrow> (Raise e, w1)
           | (Hang, w1) \<Rightarrow> (Hang, w1)))"

definition mask_attr :: "sid \<Rightarrow> obj \<Rightarrow> string \<Rightarrow> val \<Rightarrow> world \<Rightarrow> val result \<times> world" where
  "mask_attr self ob attr v w = push_mask self (AttrT ob attr) v w"

definition mask_parameter :: "sid \<Rightarrow> oid \<Rightarrow> val \<Rightarrow> world \<Rightarrow> val result \<times> world" where
  "mask_parameter self p v w = push_mask self (ParameterT p) v w"

definition mask_key :: "sid \<Rightarrow> oid \<Rightarrow> string \<Rightarrow> val \<Rightarrow> world \<Rightarrow> val result \<times> world" where
  "mask_key self d key v w = push_mask self (KeyT d key) v w"

text \<open>The list comprehensions of \<^verbatim>\<open>mask\<close>: one push for each keyword argument, in order.\<close>

fun mask_each ::
  "(string \<Rightarrow> val \<Rightarrow> world \<Rightarrow> val result \<times> world) \<Rightarrow> (string \<times> val) list \<Rightarrow> world
     \<Rightarrow> val list result \<times> world" where
  "mask_each f [] w = (Return [], w)"
| "mask_each f ((k, v) # kwargs) w =
     (case f k v w of
        (Return original, w1) \<Rightarrow>
          (case mask_each f kwargs w1 of
             (Return originals, w2) \<Rightarrow> (Return (original # originals), w2)
           | (Raise e, w2) \<Rightarrow> (Raise e, w2)
           | (Hang, w2) \<Rightarrow> (Hang, w2))
      | (Raise e, w1) \<Rightarrow> (Raise e, w1)
      | (Hang, w1) \<Rightarrow> (Hang, w1))"

text \<open>
  \<^verbatim>\<open>Measurement.mask\<close>. \<open>v\<close> is the argument \<^verbatim>\<open>val\<close> (\<open>VNone\<close> when it is left out);
  for a parameter the source returns the original value itself, here a one-element list.
\<close>

definition mask_msmt ::
  "sid \<Rightarrow> obj \<Rightarrow> val \<Rightarrow> (string \<times> val) list \<Rightarrow> world \<Rightarrow> val list result \<times> world" where
  "mask_msmt self ob v kwargs w =
     (case ob of
        Node n \<Rightarrow>
          if v \<noteq> VNone then (Raise AssertionError, w)
          else mask_each
                 (\<lambda>key val w. case node_parameters w n key of
                                 Some p \<Rightarrow> mask_parameter self p val w
                               | None \<Rightarrow> mask_attr self ob key val w) kwargs w
      | Param p \<Rightarrow>
          if kwargs = [] then
            (case mask_parameter self p v w of
               (Return original, w1) \<Rightarrow> (Return [original], w1)
             | (Raise e, w1) \<Rightarrow> (Raise e, w1)
             | (Hang, w1) \<Rightarrow> (Hang, w1))
          else mask_each (mask_attr self ob) kwargs w
      | Dict d \<Rightarrow>
          if kwargs = [] then (Raise MaskSyntaxError, w)
          else mask_each (mask_key self d) kwargs w
      | Other x \<Rightarrow>
          if kwargs = [] then (Raise MaskSyntaxError, w)
          else mask_each (mask_attr self ob) kwargs w)"

text \<open>
  \<^verbatim>\<open>Measurement.unmask\<close> called with a mask record (its \<^verbatim>\<open>else\<close> branch): write the
  original value back; a failure is logged, and raised again when \<^verbatim>\<open>raise_exception\<close>
  is set.
\<close>

definition restore_one :: "bool \<Rightarrow> mask_record \<Rightarrow> world \<Rightarrow> unit result \<times> world" where
  "restore_one raise_exception r w =
     (case write_target (m_target r) (original_value r) w of
        (Return _, w1) \<Rightarrow> (Return (), w1)
      | (Raise e, w1) \<Rightarrow>
          (if is_Exception e then
             (let w2 = w1\<lparr>msmt_log := msmt_log w1 @
                          [LogCouldNotUnmask (m_target r) (m_value r) (original_value r)]\<rparr>
              in if raise_exception then (Raise e, w2) else (Return (), w2))
           else (Raise e, w1))
      | (Hang, w1) \<Rightarrow> (Hang, w1))"

fun restore_each :: "bool \<Rightarrow> mask_record list \<Rightarrow> world \<Rightarrow> unit result \<times> world" where
  "restore_each raise_exception [] w = (Return (), w)"
| "restore_each raise_exception (r # rs) w =
     (case restore_one raise_exception r w of
        (Return _, w1) \<Rightarrow> restore_each raise_exception rs w1
      | (Raise e, w1) \<Rightarrow> (Raise e, w1)
      | (Hang, w1) \<Rightarrow> (Hang, w1))"

fun obj_of :: "target \<Rightarrow> obj" where
  "obj_of (ParameterT p) = Param p"
| "obj_of (AttrT ob attr) = ob"
| "obj_of (KeyT d key) = Dict d"

fun attr_of :: "target \<Rightarrow> string option" where
  "attr_of (AttrT ob attr) = Some attr"
| "attr_of t = None"

fun key_of :: "target \<Rightarrow> string option" where
  "key_of (KeyT d key) = Some key"
| "key_of t = None"

text \<open>
  \<^verbatim>\<open>Measurement.unmask\<close> called with a target: the records of the target (of its
  attribute or key when one is given) are restored, the last pushed first, through
  \<^verbatim>\<open>self.unmask(**unmask_property)\<close>, which leaves \<^verbatim>\<open>raise_exception\<close> at its default
  \<^verbatim>\<open>True\<close>; the other records stay. \<open>selected\<close> is the \<^verbatim>\<open>else\<close> of the chain of tests.
\<close>

definition selected :: "obj \<Rightarrow> string option \<Rightarrow> string option \<Rightarrow> mask_record \<Rightarrow> bool" where
  "selected ob attr key r =
     (if obj_of (m_target r) \<noteq> ob then False
      else if attr \<noteq> None \<and> attr_of (m_target r) \<noteq> attr then False
      else if key \<noteq> None \<and> key_of (m_target r) \<noteq> key then False
      else True)"

definition unmask ::
  "sid \<Rightarrow> obj \<Rightarrow> string option \<Rightarrow> string option \<Rightarrow> world \<Rightarrow> unit result \<times> world" where
  "unmask self ob attr key w =
     (let unmask_properties = filter (selected ob attr key) (masked_properties (sessions w self));
          remaining_masked_properties =
            filter (\<lambda>r. \<not> selected ob attr key r) (masked_properties (sessions w self))
      in case restore_each True (rev unmask_properties) w of
           (Return _, w1) \<Rightarrow>
             (Return (),
              upd_session self (\<lambda>s. s\<lparr>masked_properties := remaining_masked_properties\<rparr>) w1)
         | (Raise e, w1) \<Rightarrow> (Raise e, w1)
         | (Hang, w1) \<Rightarrow> (Hang, w1))"

text \<open>\<^verbatim>\<open>Measurement.unmask_all\<close>.\<close>

definition unmask_all :: "sid \<Rightarrow> world \<Rightarrow> unit result \<times> world" where
  "unmask_all self w =
     (case restore_each False (rev (masked_properties (sessions w self))) w of
        (Return _, w1) \<Rightarrow> (Return (), upd_session self (\<lambda>s. s\<lparr>masked_properties := []\<rparr>) w1)
      | (Raise e, w1) \<Rightarrow> (Raise e, w1)
      | (Hang, w1) \<Rightarrow> (Hang, w1))"

subsection \<open>Sequencing\<close>

text \<open>Run the next statement on the store a call left, unless the call raised or hangs.\<close>

definition and_then ::
  "'a result \<times> world \<Rightarrow> ('a \<Rightarrow> world \<Rightarrow> 'b result \<times> world) \<Rightarrow> 'b result \<times> world" where
  "and_then m f =
     (case m of
        (Return x, w) \<Rightarrow> f x w
      | (Raise e, w) \<Rightarrow> (Raise e, w)
      | (Hang, w) \<Rightarrow> (Hang, w))"

subsection \<open>Pause, resume, stop\<close>

text \<open>\<^verbatim>\<open>Measurement.pause\<close>, \<^verbatim>\<open>resume\<close> and \<^verbatim>\<open>stop\<close>: all three act on the running measurement.\<close>

definition pause :: "world \<Rightarrow> unit result \<times> world" where
  "pause w =
     (case running_measurement w of
        None \<Rightarrow> (Raise AttributeError, w)
      | Some r \<Rightarrow> (Return (), upd_session r (\<lambda>s. s\<lparr>is_paused := True\<rparr>) w))"

definition resume :: "world \<Rightarrow> unit result \<times> world" where
  "resume w =
     (case running_measurement w of
        None \<Rightarrow> (Raise AttributeError, w)
      | Some r \<Rightarrow> (Return (), upd_session r (\<lambda>s. s\<lparr>is_paused := False\<rparr>) w))"

definition stop :: "world \<Rightarrow> unit result \<times> world" where
  "stop w =
     (case running_measurement w of
        None \<Rightarrow> (Raise AttributeError, w)
      | Some r \<Rightarrow> resume (upd_session r (\<lambda>s. s\<lparr>is_stopped := True\<rparr>) w))"

fun apply_control :: "control \<Rightarrow> world \<Rightarrow> world" where
  "apply_control Pause w = snd (pause w)"
| "apply_control Resume w = snd (resume w)"
| "apply_control Stop w = snd (stop w)"

definition apply_controls :: "control list \<Rightarrow> world \<Rightarrow> world" where
  "apply_controls cs w = fold apply_control cs w"

text \<open>
  The pause loop \<^verbatim>\<open>while msmt.is_paused: sleep(0.1)\<close>. During each sleep the other
  threads make the control calls of the next batch of \<open>pending\<close>. When the batches run
  out while the measurement is still paused, the loop never ends: the result is \<open>None\<close>.
\<close>

fun wait_loop :: "control list list \<Rightarrow> sid \<Rightarrow> world \<Rightarrow> world option" where
  "wait_loop [] r w =
     (if is_paused (sessions w r) then None else Some (w\<lparr>pending := []\<rparr>))"
| "wait_loop (cs # rest) r w =
     (if is_paused (sessions w r) then wait_loop rest r (apply_controls cs w)
      else Some (w\<lparr>pending := cs # rest\<rparr>))"

definition wait_while_paused :: "sid \<Rightarrow> world \<Rightarrow> unit result \<times> world" where
  "wait_while_paused r w =
     (case wait_loop (pending w) r w of
        None \<Rightarrow> (Hang, w)
      | Some w1 \<Rightarrow> (Return (), w1))"

subsection \<open>Strings\<close>

fun str_nat :: "nat \<Rightarrow> string" where
  "str_nat n =
     (if n < 10 then [char_of (48 + n)]
      else str_nat (n div 10) @ [char_of (48 + n mod 10)])"

declare str_nat.simps [simp del]

definition str_int :: "int \<Rightarrow> string" where
  "str_int i = (if i < 0 then CHR ''-'' # str_nat (nat (- i)) else str_nat (nat i))"

fun join_underscore :: "string list \<Rightarrow> string" where
  "join_underscore [] = []"
| "join_underscore [x] = x"
| "join_underscore (x # y # ys) = x @ ''_'' @ join_underscore (y # ys)"

definition capitalize :: "char \<Rightarrow> char" where
  "capitalize c =
     (if (97::nat) \<le> of_char c \<and> of_char c \<le> (122::nat)
      then char_of (of_char c - (32::nat)) else c)"

text \<open>\<^verbatim>\<open>name[0].capitalize() + name[1:].replace("_", " ")\<close>, for a name that is not empty.\<close>

definition default_label :: "string \<Rightarrow> string" where
  "default_label nm =
     capitalize (hd nm) # map (\<lambda>c. if c = CHR ''_'' then CHR '' '' else c) (tl nm)"

subsection \<open>Data arrays\<close>

definition np_shape :: "val \<Rightarrow> nat list" where
  "np_shape v = (case v of VArray shape \<Rightarrow> shape | _ \<Rightarrow> [])"

definition is_ndarray :: "val \<Rightarrow> bool" where
  "is_ndarray v = (case v of VArray shape \<Rightarrow> True | _ \<Rightarrow> False)"

definition the_dataset :: "sid \<Rightarrow> world \<Rightarrow> dataset result \<times> world" where
  "the_dataset self w =
     (case dataset (sessions w self) of
        None \<Rightarrow> (Raise AttributeError, w)
      | Some d \<Rightarrow> (Return d, w))"

definition set_dataset :: "sid \<Rightarrow> dataset \<Rightarrow> world \<Rightarrow> world" where
  "set_dataset self d w = upd_session self (\<lambda>s. s\<lparr>dataset := Some d\<rparr>) w"

definition the_arrays_ref :: "sid \<Rightarrow> world \<Rightarrow> sid result \<times> world" where
  "the_arrays_ref self w =
     (case arrays_ref (sessions w self) of
        None \<Rightarrow> (Raise AttributeError, w)
      | Some k \<Rightarrow> (Return k, w))"

text \<open>
  \<^verbatim>\<open>Measurement._create_data_array\<close>, in three parts. \<open>array_kwargs\<close> is the part up to
  the set arrays: the two checks, the shape, the name, label and unit. Where a
  parameter is given, the array has the name of the parameter
  (\<^verbatim>\<open>qcodes.data.data_array\<close> is not among the sources) and \<^verbatim>\<open>name\<close> is its full name.
\<close>

definition array_kwargs ::
  "sid \<Rightarrow> address \<Rightarrow> val \<Rightarrow> parameter option \<Rightarrow> bool \<Rightarrow> string option \<Rightarrow> string option
     \<Rightarrow> string option \<Rightarrow> world \<Rightarrow> data_array result \<times> world" where
  "array_kwargs self a result param is_setpoint nm label unit w =
     (if param = None \<and> nm = None then (Raise MissingParameterOrName, w)
      else
        (case running_measurement w of
           None \<Rightarrow> (Raise AttributeError, w)
         | Some r \<Rightarrow>
             and_then (the_arrays_ref r w) (\<lambda>k w.
               if length (data_arrays_heap w k) \<ge> max_arrays w
               then (Raise (TooManyArrays (max_arrays w)), w)
               else
                 (let shape0 = loop_shape (sessions w self) @
                        (if is_setpoint \<or> is_ndarray result then np_shape result else []);
                      shape = (if shape0 = [] then [1] else shape0)
                  in case param of
                       Some p \<Rightarrow>
                         (Return \<lparr>da_name = p_name p,
                                  da_full_name = (case nm of Some n \<Rightarrow> n | None \<Rightarrow> p_name p),
                                  da_array_id = [], da_label = label, da_unit = unit,
                                  da_shape = shape, da_is_setpoint = is_setpoint,
                                  da_action_indices = a, da_set_arrays = []\<rparr>, w)
                     | None \<Rightarrow>
                         (case nm of
                            None \<Rightarrow> (Raise AttributeError, w)
                          | Some n \<Rightarrow>
                              if label = None \<and> n = [] then (Raise IndexError, w)
                              else
                                (Return \<lparr>da_name = n, da_full_name = n, da_array_id = [],
                                   da_label =
                                     (case label of None \<Rightarrow> Some (default_label n)
                                      | Some l \<Rightarrow> Some l),
                                   da_unit =
                                     (case unit of None \<Rightarrow> Some []
                                      | Some u \<Rightarrow> Some u),
                                   da_shape = shape, da_is_setpoint = is_setpoint,
                                   da_action_indices = a, da_set_arrays = []\<rparr>, w))))))"

text \<open>
  \<open>register_array\<close> is the part after the set arrays: the array id, \<^verbatim>\<open>add_array\<close> and
  \<^verbatim>\<open>save_metadata\<close> on the dataset, and the entry in \<^verbatim>\<open>self.set_arrays\<close> or
  \<^verbatim>\<open>self.data_arrays\<close>.
\<close>

definition register_array ::
  "sid \<Rightarrow> address \<Rightarrow> data_array \<Rightarrow> world \<Rightarrow> data_array result \<times> world" where
  "register_array self a da0 w =
     (let da = da0\<lparr>da_array_id :=
                    da_full_name da0 @ ''_'' @ join_underscore (map str_int a)\<rparr>
      in and_then (the_dataset self w) (\<lambda>d w.
           let w1 = set_dataset self
                      (d\<lparr>ds_arrays := AList.update (da_array_id da) da (ds_arrays d),
                         ds_saved := Suc (ds_saved d)\<rparr>) w
           in and_then (the_arrays_ref self w1) (\<lambda>k w.
                if da_is_setpoint da
                then (Return da,
                      w\<lparr>set_arrays_heap :=
                          (set_arrays_heap w)(k := AList.update a da (set_arrays_heap w k))\<rparr>)
                else (Return da,
                      w\<lparr>data_arrays_heap :=
                          (data_arrays_heap w)(k := AList.update a da (data_arrays_heap w k))\<rparr>))))"

text \<open>The call \<^verbatim>\<open>_create_data_array(..., is_setpoint=True)\<close>, which adds no set arrays.\<close>

definition create_set_array ::
  "sid \<Rightarrow> address \<Rightarrow> val \<Rightarrow> parameter option \<Rightarrow> string option \<Rightarrow> string option
     \<Rightarrow> string option \<Rightarrow> world \<Rightarrow> data_array result \<times> world" where
  "create_set_array self a result param nm label unit w =
     and_then (array_kwargs self a result param True nm label unit w)
       (\<lambda>da w. register_array self a da w)"

text \<open>
  \<^verbatim>\<open>Measurement._add_set_arrays\<close>. \<open>sweep_set_arrays\<close> is the first loop, over the proper
  prefixes of the action indices; \<open>result_set_arrays\<close> is the loop over the axes of an
  array result (the parameters of this model declare no setpoints, so each axis gets
  \<^verbatim>\<open>np.arange\<close>); last comes the dummy array of a measurement outside any sweep.
\<close>

definition sweep_set_arrays :: "(address \<times> data_array) list \<Rightarrow> address \<Rightarrow> data_array list" where
  "sweep_set_arrays sa a =
     concat (map (\<lambda>k. case map_of sa (take k a) of None \<Rightarrow> [] | Some arr \<Rightarrow> [arr])
                 [1..<length a])"

fun result_set_arrays ::
  "sid \<Rightarrow> address \<Rightarrow> nat list \<Rightarrow> string \<Rightarrow> nat list \<Rightarrow> world
     \<Rightarrow> data_array list result \<times> world" where
  "result_set_arrays self a shape nm [] w = (Return [], w)"
| "result_set_arrays self a shape nm (k # ks) w =
     and_then
       (create_set_array self (a @ replicate k 0) (VArray (take (Suc k) shape)) None
          (Some (nm @ ''_set'' @ str_nat k)) None None w)
       (\<lambda>arr w. and_then (result_set_arrays self a shape nm ks w)
          (\<lambda>arrs w. (Return (arr # arrs), w)))"

definition add_set_arrays ::
  "sid \<Rightarrow> address \<Rightarrow> val \<Rightarrow> string \<Rightarrow> parameter option \<Rightarrow> world
     \<Rightarrow> data_array list result \<times> world" where
  "add_set_arrays self a result nm param w =
     and_then
       (if 1 < length a
        then and_then (the_arrays_ref self w)
               (\<lambda>k w. (Return (sweep_set_arrays (set_arrays_heap w k) a), w))
        else (Return [], w))
       (\<lambda>set_arrays0 w.
          and_then
            (if is_ndarray result
             then and_then
                    (result_set_arrays self a (np_shape result) nm
                       [0..<length (np_shape result)] w)
                    (\<lambda>arrs w. (Return (set_arrays0 @ arrs), w))
             else (Return set_arrays0, w))
            (\<lambda>set_arrays1 w.
               if set_arrays1 = [] \<and> loop_indices (sessions w self) = [] then
                 (case running_measurement w of
                    None \<Rightarrow> (Raise AttributeError, w)
                  | Some r \<Rightarrow>
                      and_then
                        (create_set_array self (action_indices (sessions w r)) result None
                           (Some ''None'') None None w)
                        (\<lambda>arr w.
                           (Return [arr],
                            w\<lparr>array_writes := array_writes w @
                                [(da_array_id arr, [0], VInt 1)]\<rparr>)))
               else (Return set_arrays1, w)))"

text \<open>\<^verbatim>\<open>name or parameter.name\<close>.\<close>

definition name_or_parameter :: "string option \<Rightarrow> parameter option \<Rightarrow> world \<Rightarrow> string result \<times> world" where
  "name_or_parameter nm param w =
     (case (nm, param) of
        (Some (c # cs), _) \<Rightarrow> (Return (c # cs), w)
      | (_, Some p) \<Rightarrow> (Return (p_name p), w)
      | (_, None) \<Rightarrow> (Raise AttributeError, w))"

definition create_data_array ::
  "sid \<Rightarrow> address \<Rightarrow> val \<Rightarrow> parameter option \<Rightarrow> bool \<Rightarrow> string option \<Rightarrow> string option
     \<Rightarrow> string option \<Rightarrow> world \<Rightarrow> data_array result \<times> world" where
  "create_data_array self a result param is_setpoint nm label unit w =
     and_then (array_kwargs self a result param is_setpoint nm label unit w)
       (\<lambda>da w.
          if \<not> is_setpoint then
            and_then (name_or_parameter nm param w)
              (\<lambda>n w. and_then (add_set_arrays self a result n param w)
                 (\<lambda>arrs w.
                    register_array self a (da\<lparr>da_set_arrays := map da_array_id arrs\<rparr>) w))
          else register_array self a da w)"

text \<open>\<^verbatim>\<open>Measurement._add_measurement_result\<close>.\<close>

definition set_array_payload :: "nat list \<Rightarrow> string list \<Rightarrow> (string \<times> val) list" where
  "set_array_payload shape ids =
     map (\<lambda>(k, array_id). (array_id, VArray (take (Suc k) shape))) (enumerate 0 ids)"

definition add_measurement_result ::
  "sid \<Rightarrow> address \<Rightarrow> val \<Rightarrow> parameter option \<Rightarrow> bool \<Rightarrow> string option \<Rightarrow> string option
     \<Rightarrow> string option \<Rightarrow> world \<Rightarrow> (string \<times> val) list result \<times> world" where
  "add_measurement_result self a result param store nm label unit w =
     (if param = None \<and> nm = None then (Raise MissingParameterOrName, w)
      else
        and_then (the_arrays_ref self w) (\<lambda>k w.
        and_then
          (if map_of (data_arrays_heap w k) a = None
           then and_then (create_data_array self a result param False nm label unit w)
                  (\<lambda>da w. (Return (), w))
           else (Return (), w))
          (\<lambda>_ w.
        and_then (the_arrays_ref self w) (\<lambda>k w.
          case map_of (data_arrays_heap w k) a of
            None \<Rightarrow> (Raise KeyError, w)
          | Some da \<Rightarrow>
              (let n = (case nm of
                          Some n \<Rightarrow> n
                        | None \<Rightarrow> (case param of Some p \<Rightarrow> p_name p | None \<Rightarrow> []));
                   ndim = length (loop_indices (sessions w self));
                   loop_indices1 =
                     (if loop_indices (sessions w self) = [] \<and> \<not> is_ndarray result
                      then [0] else loop_indices (sessions w self))
               in if da_name da \<noteq> n then (Raise (NameConflict (da_name da) n), w)
                  else if is_ndarray result \<and>
                          length (da_set_arrays da) \<noteq> ndim + length (np_shape result)
                  then (Raise (WrongSetArrayCount (ndim + length (np_shape result))
                                 (length (da_set_arrays da))), w)
                  else
                    (let data_to_store =
                           (if is_ndarray result
                            then fold (\<lambda>(i, v). AList.update i v)
                                   (set_array_payload (np_shape result)
                                      (drop ndim (da_set_arrays da)))
                                   [(da_array_id da, result)]
                            else [(da_array_id da, result)])
                     in if store then
                          and_then (the_dataset self w) (\<lambda>d w.
                            (Return data_to_store,
                             set_dataset self
                               (d\<lparr>ds_stored := ds_stored d @ [(loop_indices1, data_to_store)]\<rparr>)
                               w))
                        else (Return data_to_store, w)))))))"

text \<open>\<^verbatim>\<open>Measurement._measure_value\<close>.\<close>

definition native_value :: "val \<Rightarrow> val" where
  "native_value v =
     (case v of
        VNpInt i \<Rightarrow> VInt i
      | VNpFloat x \<Rightarrow> VFloat x
      | VNpBool b \<Rightarrow> VBool b
      | _ \<Rightarrow> v)"

definition measure_value ::
  "sid \<Rightarrow> val \<Rightarrow> string option \<Rightarrow> parameter option \<Rightarrow> string option \<Rightarrow> string option
     \<Rightarrow> world \<Rightarrow> val result \<times> world" where
  "measure_value self v nm param label unit w =
     (case nm of
        None \<Rightarrow> (Raise MissingName, w)
      | Some n \<Rightarrow>
          and_then (verify_action self None n True w) (\<lambda>_ w.
            and_then
              (add_measurement_result self (action_indices (sessions w self))
                 (native_value v) param True (Some n) label unit w)
              (\<lambda>_ w. (Return (native_value v), w))))"

subsection \<open>Entering and leaving a measurement\<close>

text \<open>\<^verbatim>\<open>Measurement._apply_actions\<close>, without the final \<^verbatim>\<open>actions.clear()\<close>.\<close>

fun apply_actions :: "hook list \<Rightarrow> string \<Rightarrow> world \<Rightarrow> unit result \<times> world" where
  "apply_actions [] label w = (Return (), w)"
| "apply_actions (Hook n exc # hs) label w =
     (let w1 = w\<lparr>action_trace := action_trace w @ [(n, running_measurement w)]\<rparr>
      in case exc of
           None \<Rightarrow> apply_actions hs label w1
         | Some e \<Rightarrow>
             if is_Exception e
             then apply_actions hs label
                    (w1\<lparr>msmt_log := msmt_log w1 @ [LogActionFailed label n]\<rparr>)
             else (Raise e, w1))"

definition add_metadata :: "sid \<Rightarrow> metadata \<Rightarrow> world \<Rightarrow> unit result \<times> world" where
  "add_metadata i m w =
     and_then (the_dataset i w)
       (\<lambda>d w. (Return (), set_dataset i (d\<lparr>ds_metadata := ds_metadata d @ [m]\<rparr>) w))"

definition save_metadata :: "sid \<Rightarrow> world \<Rightarrow> unit result \<times> world" where
  "save_metadata i w =
     and_then (the_dataset i w)
       (\<lambda>d w. (Return (), set_dataset i (d\<lparr>ds_saved := Suc (ds_saved d)\<rparr>) w))"

text \<open>
  The body of the \<^verbatim>\<open>try\<close> of \<^verbatim>\<open>Measurement.__enter__\<close>: the first branch makes
  \<^verbatim>\<open>self\<close> the running measurement and creates the dataset (\<^verbatim>\<open>new_data\<close> raises when
  \<open>new_data_ok\<close> is false), the second registers \<^verbatim>\<open>self\<close> as a data group of the
  running measurement; then comes the thread check of \<^verbatim>\<open>force_cell_thread\<close>
  (the entries \<^verbatim>\<open>msmt\<close> and \<^verbatim>\<open>data\<close> it adds to the namespace of the IPython shell
  are left out, as are the timings).
\<close>

definition new_dataset :: dataset where
  "new_dataset =
     \<lparr>ds_arrays = [], ds_active = True, ds_finalized = False, ds_file_closed = False,
      ds_metadata = [], ds_saved = 0, ds_stored = [], ds_finalize_ok = True\<rparr>"

definition initialize_metadata :: "sid \<Rightarrow> world \<Rightarrow> unit result \<times> world" where
  "initialize_metadata self w =
     and_then (add_metadata self MetaConfig w) (\<lambda>_ w.
     and_then (add_metadata self MetaMeasurementType w) (\<lambda>_ w.
     and_then (if station_default w then add_metadata self MetaStation w else (Return (), w))
       (\<lambda>_ w. if using_ipython w then add_metadata self MetaCell w else (Return (), w))))"

definition enter_body :: "tid \<Rightarrow> sid \<Rightarrow> world \<Rightarrow> unit result \<times> world" where
  "enter_body cur self w =
     and_then
       (case running_measurement w of
          None \<Rightarrow>
            (let w1 = w\<lparr>running_measurement := Some self, measurement_thread := Some cur\<rparr>
             in if \<not> new_data_ok w1 then (Raise StorageError, w1)
                else
                  and_then (initialize_metadata self (set_dataset self new_dataset w1)) (\<lambda>_ w.
                  and_then (save_metadata self w) (\<lambda>_ w.
                    (Return (),
                     (upd_session self
                        (\<lambda>s. s\<lparr>loop_shape := [], loop_indices := [], action_indices := [0],
                               arrays_ref := Some self\<rparr>) w)
                       \<lparr>data_arrays_heap := (data_arrays_heap w)(self := []),
                        set_arrays_heap := (set_arrays_heap w)(self := []),
                        msmt_log := msmt_log w @ [LogStarted self]\<rparr>))))
        | Some msmt \<Rightarrow>
            if measurement_thread w \<noteq> Some cur then (Raise WrongThread, w)
            else
              (let w1 = upd_session msmt
                          (\<lambda>s. s\<lparr>data_groups :=
                                   AList.update (action_indices s) self (data_groups s)\<rparr>) w
               in and_then
                    (add_metadata msmt
                       (MetaDataGroups
                          (map (\<lambda>(key, val). (key, msmt_name (sessions w1 val)))
                             (data_groups (sessions w1 msmt)))) w1)
                    (\<lambda>_ w.
                       let w2 = upd_session msmt
                                  (\<lambda>s. s\<lparr>action_indices := action_indices s @ [0]\<rparr>) w
                       in (Return (),
                           upd_session self
                             (\<lambda>s. s\<lparr>loop_shape := loop_shape (sessions w2 msmt),
                                    loop_indices := loop_indices (sessions w2 msmt),
                                    action_indices := action_indices (sessions w2 msmt),
                                    arrays_ref := arrays_ref (sessions w2 msmt)\<rparr>) w2))))
       (\<lambda>_ w.
          if force_cell_thread (sessions w self) \<and> running_measurement w = Some self
          then (if cur = main_thread w \<and> executed_from_cell w
                then (Raise DedicatedThreadRequired, w)
                else (Return (), w))
          else (Return (), w))"

text \<open>
  \<^verbatim>\<open>Measurement.__enter__\<close>: the bare \<^verbatim>\<open>except\<close> clears the running measurement if it
  is \<^verbatim>\<open>self\<close> and raises again.
\<close>

definition msmt_enter :: "tid \<Rightarrow> sid \<Rightarrow> world \<Rightarrow> unit result \<times> world" where
  "msmt_enter cur self w =
     (case enter_body cur self (upd_session self (\<lambda>s. s\<lparr>is_context_manager := True\<rparr>) w) of
        (Return x, w1) \<Rightarrow> (Return x, w1)
      | (Raise e, w1) \<Rightarrow>
          (Raise e,
           if running_measurement w1 = Some self then w1\<lparr>running_measurement := None\<rparr> else w1)
      | (Hang, w1) \<Rightarrow> (Hang, w1))"

text \<open>
  \<^verbatim>\<open>Measurement.__exit__\<close>; \<open>exc\<close> is the exception in flight, if any. \<open>close_dataset\<close>
  is the end of the branch of the outermost measurement, from the notification on.
\<close>

definition close_dataset :: "sid \<Rightarrow> error option \<Rightarrow> world \<Rightarrow> unit result \<times> world" where
  "close_dataset self exc w =
     (let w1 = (if notify (sessions w self) then
                  (case notify_function w of
                     None \<Rightarrow> w
                   | Some (Hook n None) \<Rightarrow>
                       w\<lparr>action_trace := action_trace w @ [(n, running_measurement w)]\<rparr>
                   | Some (Hook n (Some e)) \<Rightarrow>
                       w\<lparr>action_trace := action_trace w @ [(n, running_measurement w)],
                         msmt_log := msmt_log w @ [LogCouldNotNotify]\<rparr>)
                else w)
      in and_then (add_metadata self MetaTStop w1) (\<lambda>_ w.
         and_then (add_metadata self MetaTimings w) (\<lambda>_ w.
         and_then (the_dataset self w) (\<lambda>d w.
         and_then
           (if \<not> list_all (\<lambda>(array_id, arr). da_is_setpoint arr) (ds_arrays d) then
              (if ds_finalize_ok d
               then (Return (),
                     set_dataset self (d\<lparr>ds_finalized := True, ds_active := False\<rparr>) w)
               else (Raise StorageError, w))
            else
              (Return (),
               set_dataset self (d\<lparr>ds_file_closed := True, ds_saved := Suc (ds_saved d)\<rparr>) w))
           (\<lambda>_ w.
              and_then (the_dataset self w) (\<lambda>d w.
                (Return (),
                 (set_dataset self (d\<lparr>ds_active := False\<rparr>) w)
                   \<lparr>msmt_log := msmt_log w @ [LogFinished self]\<rparr>)))))))"

definition msmt_exit :: "sid \<Rightarrow> error option \<Rightarrow> world \<Rightarrow> unit result \<times> world" where
  "msmt_exit self exc w0 =
     (let msmt = running_measurement w0;
          w = (if msmt = Some self then w0\<lparr>running_measurement := None\<rparr> else w0)
      in
      and_then
        (case exc of
           None \<Rightarrow> (Return (), w)
         | Some e \<Rightarrow>
             and_then
               (apply_actions (except_actions (sessions w self)) ''except''
                  (w\<lparr>msmt_log := msmt_log w @ [LogMeasurementError self e]\<rparr>))
               (\<lambda>_ w.
                  let w1 = upd_session self (\<lambda>s. s\<lparr>except_actions := []\<rparr>) w
                  in if msmt = Some self then
                       and_then (apply_actions (class_except_actions w1) ''global except'' w1)
                         (\<lambda>_ w. (Return (), w\<lparr>class_except_actions := []\<rparr>))
                     else (Return (), w1)))
        (\<lambda>_ w.
      and_then (apply_actions (final_actions (sessions w self)) ''final'' w) (\<lambda>_ w.
      and_then (unmask_all self (upd_session self (\<lambda>s. s\<lparr>final_actions := []\<rparr>) w)) (\<lambda>_ w.
      and_then
        (if msmt = Some self then
           and_then (apply_actions (class_final_actions w) ''global final'' w)
             (\<lambda>_ w. close_dataset self exc w)
         else
           (case msmt of
              None \<Rightarrow> (Raise AttributeError, w)
            | Some r \<Rightarrow> step_out r False w))
        (\<lambda>_ w. (Return (), upd_session self (\<lambda>s. s\<lparr>is_context_manager := False\<rparr>) w))))))"

text \<open>
  The \<^verbatim>\<open>with\<close> statement around a body that has run: \<^verbatim>\<open>__exit__\<close> is called with the
  exception of the body, which is raised again afterwards unless \<^verbatim>\<open>__exit__\<close> itself
  raises.
\<close>

definition leave_with :: "sid \<Rightarrow> 'a result \<times> world \<Rightarrow> 'a result \<times> world" where
  "leave_with i m =
     (case m of
        (Return x, w) \<Rightarrow> and_then (msmt_exit i None w) (\<lambda>_ w. (Return x, w))
      | (Raise e, w) \<Rightarrow> and_then (msmt_exit i (Some e) w) (\<lambda>_ w. (Raise e, w))
      | (Hang, w) \<Rightarrow> (Hang, w))"

subsection \<open>Measuring\<close>

text \<open>
  What can be measured here: a bare value, or a dict of name and measurable (which may
  hold dicts again). Parameters, multi-valued parameters and callables, which
  \<^verbatim>\<open>measure\<close> tests for first, run device and user code and are not part of the model;
  neither is the \<^verbatim>\<open>timestamp\<close> mode, so every call is one with \<^verbatim>\<open>timestamp=False\<close>.
\<close>

datatype measurable = MValue val | MDict "(string \<times> measurable) list"

text \<open>\<^verbatim>\<open>isinstance(measurable, RAW_VALUE_TYPES)\<close>.\<close>

definition is_raw_value :: "val \<Rightarrow> bool" where
  "is_raw_value v = (case v of VStr s \<Rightarrow> False | _ \<Rightarrow> True)"

text \<open>The three tests at the top of \<^verbatim>\<open>measure\<close>.\<close>

definition measure_checks :: "tid \<Rightarrow> sid \<Rightarrow> world \<Rightarrow> unit result \<times> world" where
  "measure_checks cur self w =
     (if \<not> is_context_manager (sessions w self) then (Raise NotContextManager, w)
      else if is_stopped (sessions w self) then (Raise StopRequested, w)
      else if measurement_thread w \<noteq> Some cur then (Raise WrongThread, w)
      else (Return (), w))"

text \<open>
  The hand-over at the top of \<^verbatim>\<open>measure\<close>: a measurement that is not the running one
  passes the call to the running one, which makes the three tests again and goes on
  with \<open>rest\<close>, the remainder of the method.
\<close>

definition measure_delegate ::
  "tid \<Rightarrow> sid \<Rightarrow> (sid \<Rightarrow> world \<Rightarrow> 'a result \<times> world) \<Rightarrow> world \<Rightarrow> 'a result \<times> world" where
  "measure_delegate cur self rest w =
     and_then (measure_checks cur self w) (\<lambda>_ w.
       if running_measurement w \<noteq> Some self then
         (case running_measurement w of
            None \<Rightarrow> (Raise AttributeError, w)
          | Some r \<Rightarrow> and_then (measure_checks cur r w) (\<lambda>_ w. rest r w))
       else rest self w)"

text \<open>The branch of \<^verbatim>\<open>measure\<close> for a bare value: \<^verbatim>\<open>_measure_value\<close>, then \<^verbatim>\<open>skip\<close>.\<close>

definition measure_raw ::
  "sid \<Rightarrow> val \<Rightarrow> string option \<Rightarrow> string option \<Rightarrow> string option \<Rightarrow> world
     \<Rightarrow> measurable result \<times> world" where
  "measure_raw self v nm label unit w =
     (if is_raw_value v then
        and_then (measure_value self v nm None label unit w) (\<lambda>result w.
        and_then (skip self 1 w) (\<lambda>_ w. (Return (MValue result), w)))
      else (Raise UnsupportedType, w))"

text \<open>
  \<^verbatim>\<open>Measurement._measure_dict\<close>: it creates a \<^verbatim>\<open>Measurement\<close>, enters it, runs the loop
  over the items (\<open>body\<close>, given the new measurement) and leaves it.
\<close>

definition measure_dict ::
  "tid \<Rightarrow> sid \<Rightarrow> string option \<Rightarrow> (sid \<Rightarrow> world \<Rightarrow> unit result \<times> world) \<Rightarrow> world
     \<Rightarrow> unit result \<times> world" where
  "measure_dict cur self nm body w =
     (case nm of
        None \<Rightarrow> (Raise InvalidDictName, w)
      | Some [] \<Rightarrow> (Raise InvalidDictName, w)
      | Some (c # cs) \<Rightarrow>
          and_then (verify_action self None (c # cs) True w) (\<lambda>_ w.
            let i = next_sid w;
                w1 = w\<lparr>sessions := (sessions w)(i := Measurement (c # cs) True False w),
                       next_sid := Suc i\<rparr>
            in and_then (msmt_enter cur i w1) (\<lambda>_ w. leave_with i (body i w))))"

text \<open>
  \<^verbatim>\<open>Measurement.measure\<close> is \<open>measure_msmt\<close>; \<open>measure_here\<close> is the method from the
  pause loop on, on the running measurement, and \<open>measure_items\<close> the loop of
  \<^verbatim>\<open>_measure_dict\<close>, which measures each item through the new measurement.
\<close>

function (sequential) measure_msmt ::
      "tid \<Rightarrow> sid \<Rightarrow> measurable \<Rightarrow> string option \<Rightarrow> string option \<Rightarrow> string option \<Rightarrow> world
         \<Rightarrow> measurable result \<times> world"
  and measure_here ::
      "tid \<Rightarrow> sid \<Rightarrow> measurable \<Rightarrow> string option \<Rightarrow> string option \<Rightarrow> string option \<Rightarrow> world
         \<Rightarrow> measurable result \<times> world"
  and measure_items ::
      "tid \<Rightarrow> sid \<Rightarrow> (string \<times> measurable) list \<Rightarrow> world \<Rightarrow> unit result \<times> world"
where
  "measure_msmt cur self m nm label unit w =
     measure_delegate cur self (\<lambda>r w. measure_here cur r m nm label unit w) w"
| "measure_here cur self (MValue v) nm label unit w =
     and_then (wait_while_paused self w) (\<lambda>_ w. measure_raw self v nm label unit w)"
| "measure_here cur self (MDict items) nm label unit w =
     and_then (wait_while_paused self w) (\<lambda>_ w.
       and_then (measure_dict cur self nm (\<lambda>i w. measure_items cur i items w) w)
         (\<lambda>_ w. (Return (MDict items), w)))"
| "measure_items cur i [] w = (Return (), w)"
| "measure_items cur i ((key, v) # items) w =
     and_then (measure_msmt cur i v (Some key) None None w)
       (\<lambda>_ w. measure_items cur i items w)"
  by pat_completeness auto

termination
  by (relation "measure (\<lambda>x. case x of
          Inl (cur, self, m, rest) \<Rightarrow> 2 * size m + 2
        | Inr (Inl (cur, self, m, rest)) \<Rightarrow> 2 * size m + 1
        | Inr (Inr (cur, i, items, w)) \<Rightarrow> 2 * size_list (size_prod (\<lambda>_. 0) size) items + 1)")
     auto

subsection \<open>Sweeps\<close>

fun seq_values :: "sequence \<Rightarrow> val list" where
  "seq_values (Values xs) = xs"
| "seq_values (SweepValues p xs) = xs"

text \<open>
  \<^verbatim>\<open>Sweep.__init__\<close> with \<^verbatim>\<open>create_set_array\<close>. Of the sequence the set array takes the
  shape, \<^verbatim>\<open>np.shape(sequence)\<close>, which for a sequence of scalars is its length.
\<close>

definition Sweep ::
  "sequence \<Rightarrow> string option \<Rightarrow> string option \<Rightarrow> bool \<Rightarrow> bool \<Rightarrow> world
     \<Rightarrow> sweep result \<times> world" where
  "Sweep sequence nm unit reverse restore w =
     (case running_measurement w of
        None \<Rightarrow> (Raise NoRunningMeasurement, w)
      | Some msmt \<Rightarrow>
          and_then (the_arrays_ref msmt w) (\<lambda>k w.
          and_then
            (case map_of (set_arrays_heap w k) (action_indices (sessions w msmt)) of
               Some arr \<Rightarrow> (Return arr, w)
             | None \<Rightarrow>
                 (case sequence of
                    SweepValues p xs \<Rightarrow>
                      create_data_array msmt (action_indices (sessions w msmt))
                        (VArray [length xs]) (Some p) True None None None w
                  | Values xs \<Rightarrow>
                      create_data_array msmt (action_indices (sessions w msmt))
                        (VArray [length xs]) None True
                        (case nm of
                           None \<Rightarrow> Some ''iterator''
                         | Some [] \<Rightarrow> Some ''iterator''
                         | Some (c # cs) \<Rightarrow> Some (c # cs))
                        None unit w))
            (\<lambda>arr w.
               (Return \<lparr>sw_name = nm, sw_unit = unit, sw_sequence = sequence,
                        sw_dimension = length (loop_shape (sessions w msmt)),
                        sw_reverse = reverse, sw_restore = restore, sw_set_array = arr\<rparr>,
                w))))"

text \<open>
  \<^verbatim>\<open>Sweep.__iter__\<close>; it returns the identity under which the sweep is kept from now on.
\<close>

definition sweep_iter :: "tid \<Rightarrow> sweep \<Rightarrow> world \<Rightarrow> nat result \<times> world" where
  "sweep_iter cur sw w =
     (if measurement_thread w \<noteq> Some cur then (Raise WrongThread, w)
      else
        and_then
          (if sw_restore sw then
             (case sw_sequence sw of
                SweepValues p xs \<Rightarrow>
                  (case running_measurement w of
                     None \<Rightarrow> (Raise AttributeError, w)
                   | Some r \<Rightarrow>
                       (case cells w (ParameterT (p_id p)) of
                          None \<Rightarrow> (Raise (LookupError (ParameterT (p_id p))), w)
                        | Some v \<Rightarrow>
                            and_then (mask_msmt r (Param (p_id p)) v [] w)
                              (\<lambda>_ w. (Return (), w))))
              | Values xs \<Rightarrow> (Raise NotImplementedError, w))
           else (Return (), w))
          (\<lambda>_ w.
             let xs = seq_values (sw_sequence sw);
                 loop_index = (if sw_reverse sw then int (length xs) - 1 else 0);
                 k = next_sweep w;
                 w1 = w\<lparr>sweeps := (sweeps w)(k :=
                          sweep.extend sw
                            \<lparr>sw_loop_index = loop_index,
                             sw_iterator = (if sw_reverse sw then rev xs else xs)\<rparr>),
                        next_sweep := Suc k\<rparr>
             in case running_measurement w1 of
                  None \<Rightarrow> (Raise AttributeError, w1)
                | Some r \<Rightarrow>
                    (Return k,
                     upd_session r
                       (\<lambda>s. s\<lparr>loop_shape := loop_shape s @ [length xs],
                              loop_indices := loop_indices s @ [loop_index],
                              action_indices := action_indices s @ [0]\<rparr>) w1)))"

text \<open>
  \<^verbatim>\<open>Sweep.__next__\<close> with \<^verbatim>\<open>exit_sweep\<close>. The end of the iteration is the outcome
  \<open>Raise StopIteration\<close>.
\<close>

definition sweep_next :: "nat \<Rightarrow> world \<Rightarrow> val result \<times> world" where
  "sweep_next k w =
     (let sw = sweeps w k in
      case running_measurement w of
        None \<Rightarrow> (Raise AttributeError, w)
      | Some msmt \<Rightarrow>
          if \<not> is_context_manager (sessions w msmt) then (Raise NotContextManager, w)
          else if is_stopped (sessions w msmt) then (Raise StopRequested, w)
          else
            and_then (wait_while_paused msmt w) (\<lambda>_ w.
              if sw_dimension sw \<ge> length (loop_indices (sessions w msmt))
              then (Raise IndexError, w)
              else
                (let w1 = upd_session msmt
                            (\<lambda>s. s\<lparr>loop_indices :=
                                     (loop_indices s)[sw_dimension sw := sw_loop_index sw]\<rparr>) w
                 in case sw_iterator sw of
                      [] \<Rightarrow>
                        and_then
                          (if sw_restore sw then
                             (case sw_sequence sw of
                                SweepValues p xs \<Rightarrow> unmask msmt (Param (p_id p)) None None w1
                              | Values xs \<Rightarrow> (Return (), w1))
                           else (Return (), w1))
                          (\<lambda>_ w. and_then (step_out msmt True w)
                             (\<lambda>_ w. (Raise StopIteration, w)))
                    | sweep_value # rest \<Rightarrow>
                        (let w2 = w1\<lparr>sweeps := (sweeps w1)(k := sw\<lparr>sw_iterator := rest\<rparr>)\<rparr>
                         in if action_indices (sessions w2 msmt) = []
                            then (Raise IndexError, w2)
                            else
                              and_then
                                (case sw_sequence sw of
                                   SweepValues p xs \<Rightarrow>
                                     write_target (ParameterT (p_id p)) sweep_value
                                       (upd_session msmt
                                          (\<lambda>s. s\<lparr>action_indices :=
                                                   butlast (action_indices s) @ [0]\<rparr>) w2)
                                 | Values xs \<Rightarrow>
                                     (Return (),
                                      upd_session msmt
                                        (\<lambda>s. s\<lparr>action_indices :=
                                                 butlast (action_indices s) @ [0]\<rparr>) w2))
                                (\<lambda>_ w.
                                   (Return sweep_value,
                                    w\<lparr>array_writes := array_writes w @
                                         [(da_array_id (sw_set_array sw),
                                           loop_indices (sessions w msmt), sweep_value)],
                                      sweeps := (sweeps w)(k :=
                                        (sweeps w k)\<lparr>sw_loop_index :=
                                           sw_loop_index sw +
                                             (if sw_reverse sw then - 1 else 1)\<rparr>)\<rparr>))))))"

subsection \<open>Test worlds and auxiliary notions\<close>

text \<open>
  A store in which nothing has happened yet: every measurement is as \<^verbatim>\<open>__init__\<close> leaves
  it, every slot accepts every value, and the measurement thread is thread 0.
  \<open>started_world\<close> is that store after measurement 0 has been entered on thread 0.
\<close>

definition blank_session :: session where
  "blank_session =
     \<lparr>msmt_name = ''msmt'', dataset = None, loop_shape = [], loop_indices = [],
      action_indices = [], data_groups = [], actions = Map.empty,
      action_names = Map.empty, is_context_manager = False, is_paused = False,
      is_stopped = False, notify = False, force_cell_thread = False,
      final_actions = [], except_actions = [], masked_properties = [],
      arrays_ref = None\<rparr>"

definition blank_sweep :: sweep_iter where
  "blank_sweep =
     \<lparr>sw_name = None, sw_unit = None, sw_sequence = Values [], sw_dimension = 0,
      sw_reverse = False, sw_restore = False,
      sw_set_array = \<lparr>da_name = [], da_full_name = [], da_array_id = [], da_label = None,
        da_unit = None, da_shape = [], da_is_setpoint = True, da_action_indices = [],
        da_set_arrays = []\<rparr>,
      sw_loop_index = 0, sw_iterator = []\<rparr>"

definition blank_world :: world where
  "blank_world =
     \<lparr>sessions = (\<lambda>i. blank_session), next_sid = 1, running_measurement = None,
      measurement_thread = None, class_final_actions = [], class_except_actions = [],
      max_arrays = 100, notify_function = None,
      data_arrays_heap = (\<lambda>k. []), set_arrays_heap = (\<lambda>k. []),
      cells = Map.empty, accepts = (\<lambda>t v. True), node_parameters = (\<lambda>n. Map.empty),
      journal = [], array_writes = [], sweeps = (\<lambda>k. blank_sweep), next_sweep = 0,
      msmt_log = [], action_trace = [], pending = [], using_ipython = False,
      executed_from_cell = False, main_thread = 0, station_default = False,
      new_data_ok = True\<rparr>"

definition started_world :: world where
  "started_world = snd (msmt_enter 0 0 blank_world)"

text \<open>
  An address is registered with a name when \<^verbatim>\<open>self.actions\<close> has the address and
  \<^verbatim>\<open>self.action_names\<close> gives it that name.
\<close>

definition registered :: "sid \<Rightarrow> address \<Rightarrow> string \<Rightarrow> world \<Rightarrow> bool" where
  "registered self a nm w =
     (actions (sessions w self) a \<noteq> None \<and> action_names (sessions w self) a = Some nm)"

text \<open>
  A run of an action sequence, as far as the registry sees it: the addresses reached and
  the name verified at each.
\<close>

definition at_address :: "sid \<Rightarrow> address \<Rightarrow> world \<Rightarrow> world" where
  "at_address self a w = upd_session self (\<lambda>s. s\<lparr>action_indices := a\<rparr>) w"

fun verify_run :: "sid \<Rightarrow> (address \<times> string) list \<Rightarrow> world \<Rightarrow> unit result \<times> world" where
  "verify_run self [] w = (Return (), w)"
| "verify_run self ((a, nm) # xs) w =
     and_then (verify_action self None nm True (at_address self a w))
       (\<lambda>_ w. verify_run self xs w)"

definition registered_world :: world where
  "registered_world = snd (verify_action 0 None ''x'' True started_world)"

text \<open>A call is supported when it does not end in the unsupported-type error.\<close>

definition supported :: "'a result \<times> world \<Rightarrow> bool" where
  "supported m = (fst m \<noteq> Raise UnsupportedType)"



definition restore_write :: "mask_record \<Rightarrow> target \<times> val" where
  "restore_write r = (m_target r, original_value r)"

definition restorable :: "world \<Rightarrow> mask_record \<Rightarrow> bool" where
  "restorable w r = accepts w (m_target r) (original_value r)"

definition unmask_failure :: "mask_record \<Rightarrow> log_entry" where
  "unmask_failure r = LogCouldNotUnmask (m_target r) (m_value r) (original_value r)"

definition write_cells :: "(target \<times> val) list \<Rightarrow> (target \<rightharpoonup> val) \<Rightarrow> (target \<rightharpoonup> val)" where
  "write_cells ws c = fold (\<lambda>(t, v) c. c(t \<mapsto> v)) ws c"






text \<open>
  \<open>leaves P\<close> holds of a call when \<open>P\<close> holds of the store the call leaves, however
  it ends; \<open>avoids e\<close> holds when it does not raise \<open>e\<close>. \<open>cleared w0 w\<close>: in \<open>w\<close> there
  is no running measurement, and every except or final action run since \<open>w0\<close> saw none.
\<close>

definition leaves :: "(world \<Rightarrow> bool) \<Rightarrow> 'a result \<times> world \<Rightarrow> bool" where
  "leaves P m = P (snd m)"

definition cleared :: "world \<Rightarrow> world \<Rightarrow> bool" where
  "cleared w0 w =
     (running_measurement w = None \<and>
      (\<exists>tr. action_trace w = action_trace w0 @ tr \<and> list_all (\<lambda>x. snd x = None) tr))"

definition avoids :: "error \<Rightarrow> 'a result \<times> world \<Rightarrow> bool" where
  "avoids e m = (fst m \<noteq> Raise e)"

text \<open>
  \<open>failing_world\<close> is a store in which \<^verbatim>\<open>new_data\<close> raises. In \<open>hooked_world\<close>
  measurement 0 is running, with a final action that raises an exception, and the class
  has a final action that raises \<^verbatim>\<open>SystemExit\<close>.
\<close>

definition failing_world :: world where
  "failing_world = blank_world\<lparr>new_data_ok := False\<rparr>"

definition hooked_world :: world where
  "hooked_world =
     (upd_session 0 (\<lambda>s. s\<lparr>final_actions := [Hook 1 (Some (ActionFailed 1))]\<rparr>) started_world)
       \<lparr>class_final_actions := [Hook 2 (Some StopRequested)]\<rparr>"






definition returns :: "(world \<Rightarrow> bool) \<Rightarrow> 'a result \<times> world \<Rightarrow> bool" where
  "returns P m = ((\<exists>x. fst m = Return x) \<and> P (snd m))"


definition exit_pointer :: "sid \<Rightarrow> world \<Rightarrow> sid option" where
  "exit_pointer self w =
     (if running_measurement w = Some self then None else running_measurement w)"

definition before_unmask :: "sid \<Rightarrow> world \<Rightarrow> world \<Rightarrow> bool" where
  "before_unmask self w w' =
     (accepts w' = accepts w \<and> cells w' = cells w \<and> journal w' = journal w \<and>
      running_measurement w' = exit_pointer self w \<and>
      class_final_actions w' = class_final_actions w \<and>
      (\<forall>i. masked_properties (sessions w' i) = masked_properties (sessions w i)) \<and>
      (\<forall>i. dataset (sessions w' i) = dataset (sessions w i)) \<and>
      (final_actions (sessions w' self) = final_actions (sessions w self)))"

definition unmasked :: "sid \<Rightarrow> world \<Rightarrow> world \<Rightarrow> bool" where
  "unmasked self w w' =
     (masked_properties (sessions w' self) = [] \<and>
      journal w' = journal w @ map restore_write
         (filter (restorable w) (rev (masked_properties (sessions w self)))) \<and>
      cells w' = write_cells (map restore_write
         (filter (restorable w) (rev (masked_properties (sessions w self))))) (cells w) \<and>
      accepts w' = accepts w \<and>
      running_measurement w' = exit_pointer self w \<and>
      class_final_actions w' = class_final_actions w \<and>
      (\<forall>i. i \<noteq> self \<longrightarrow> masked_properties (sessions w' i) = masked_properties (sessions w i)))"

text \<open>
  \<open>yields P\<close> holds of a call that returns a value \<open>x\<close> and leaves a store \<open>w\<close> with
  \<open>P x w\<close>. \<open>array_room r k\<close>: measurement \<open>r\<close> is running, it has a dataset, its
  \<^verbatim>\<open>data_arrays\<close> and \<^verbatim>\<open>set_arrays\<close> are the dicts \<open>k\<close>, and \<^verbatim>\<open>data_arrays\<close> holds fewer
  than \<^verbatim>\<open>max_arrays\<close> arrays.
\<close>

definition yields :: "('a \<Rightarrow> world \<Rightarrow> bool) \<Rightarrow> 'a result \<times> world \<Rightarrow> bool" where
  "yields P m = (case m of (Return x, w) \<Rightarrow> P x w | _ \<Rightarrow> False)"

definition array_room :: "sid \<Rightarrow> sid \<Rightarrow> world \<Rightarrow> bool" where
  "array_room r k w =
     (running_measurement w = Some r \<and> arrays_ref (sessions w r) = Some k \<and>
      dataset (sessions w r) \<noteq> None \<and> length (data_arrays_heap w k) < max_arrays w)"

text \<open>
  \<open>capped_world\<close>: the ceiling is one array, and the running measurement has created one
  setpoint array (as \<^verbatim>\<open>Sweep(range(3), 'x')\<close> does) and no measured array.
\<close>

definition capped_world :: world where
  "capped_world =
     snd (create_data_array 0 [0] (VArray [3]) None True (Some ''x'') None None
            (started_world\<lparr>max_arrays := 1\<rparr>))"

section \<open>Properties\<close>

subsection \<open>Evaluation\<close>

lemmas eval_defs =
  and_then_def Let_def upd_session_def measure_delegate_def measure_checks_def
  wait_while_paused_def measure_raw_def is_raw_value_def measure_value_def verify_action_def
  add_measurement_result_def the_arrays_ref_def create_data_array_def array_kwargs_def
  name_or_parameter_def add_set_arrays_def create_set_array_def register_array_def
  the_dataset_def set_dataset_def skip_def skip_here_def adjust_last_def is_ndarray_def
  np_shape_def native_value_def

lemmas enter_defs =
  msmt_enter_def enter_body_def blank_world_def blank_session_def initialize_metadata_def
  add_metadata_def save_metadata_def new_dataset_def

lemma started_world_fields:
  "running_measurement started_world = Some 0"
  "measurement_thread started_world = Some 0"
  "action_indices (sessions started_world 0) = [0]"
  "loop_shape (sessions started_world 0) = []"
  "loop_indices (sessions started_world 0) = []"
  "is_context_manager (sessions started_world 0)"
  "\<not> is_stopped (sessions started_world 0)"
  "\<not> is_paused (sessions started_world 0)"
  "actions (sessions started_world 0) = Map.empty"
  "action_names (sessions started_world 0) = Map.empty"
  "arrays_ref (sessions started_world 0) = Some 0"
  "data_arrays_heap started_world 0 = []"
  "set_arrays_heap started_world 0 = []"
  "masked_properties (sessions started_world 0) = []"
  "max_arrays started_world = 100"
  "pending started_world = []"
  unfolding started_world_def
  by (simp_all add: eval_defs enter_defs)


subsection \<open>The action registry\<close>

lemma verify_action_first:
  "actions (sessions w self) (action_indices (sessions w self)) = None \<Longrightarrow>
   verify_action self act nm True w =
     (Return (), upd_session self
        (\<lambda>s. s\<lparr>actions := (actions s)(action_indices (sessions w self) \<mapsto> act),
               action_names := (action_names s)(action_indices (sessions w self) \<mapsto> nm)\<rparr>) w)"
  by (simp add: verify_action_def Let_def)

lemma verify_action_same:
  "registered self (action_indices (sessions w self)) nm w \<Longrightarrow>
   verify_action self act nm add w = (Return (), w)"
  by (auto simp: verify_action_def Let_def registered_def)

lemma verify_action_other:
  "registered self (action_indices (sessions w self)) expected w \<Longrightarrow> nm \<noteq> expected \<Longrightarrow>
   verify_action self act nm add w =
     (Raise (WrongMeasurement (action_indices (sessions w self)) expected nm), w)"
  by (auto simp: verify_action_def Let_def registered_def)

lemma at_address_registry [simp]:
  "actions (sessions (at_address i b w) self) = actions (sessions w self)"
  "action_names (sessions (at_address i b w) self) = action_names (sessions w self)"
  by (simp_all add: at_address_def upd_session_def)

lemma registered_at_address [simp]:
  "registered self a nm (at_address i b w) = registered self a nm w"
  by (simp add: registered_def)

lemma verify_action_keeps_registered:
  "verify_action self act nm add w = (Return x, w1) \<Longrightarrow> registered i a n w \<Longrightarrow>
   registered i a n w1"
  by (auto simp: verify_action_def Let_def registered_def upd_session_def
           split: if_splits option.splits)

lemma verify_action_registered:
  "verify_action self act nm True w = (Return x, w1) \<Longrightarrow>
   registered self (action_indices (sessions w self)) nm w1"
  by (auto simp: verify_action_def Let_def registered_def upd_session_def
           split: if_splits option.splits)

lemma verify_run_keeps_registered:
  "verify_run self xs w = (Return x, w1) \<Longrightarrow> registered self a n w \<Longrightarrow>
   registered self a n w1"
proof (induction xs arbitrary: w)
  case Nil
  then show ?case by simp
next
  case (Cons p xs)
  obtain b nm where p: "p = (b, nm)" by (cases p)
  from Cons.prems(1) obtain w2 where
    v: "verify_action self None nm True (at_address self b w) = (Return (), w2)" and
    r: "verify_run self xs w2 = (Return x, w1)"
    by (auto simp: p and_then_def split: prod.splits result.splits)
  have "registered self a n w2"
    using verify_action_keeps_registered [OF v] Cons.prems(2) by simp
  then show ?case using Cons.IH [OF r] by simp
qed

lemma verify_run_registers:
  "verify_run self xs w = (Return x, w1) \<Longrightarrow> (a, nm) \<in> set xs \<Longrightarrow> registered self a nm w1"
proof (induction xs arbitrary: w)
  case Nil
  then show ?case by simp
next
  case (Cons p xs)
  obtain b n where p: "p = (b, n)" by (cases p)
  from Cons.prems(1) obtain w2 where
    v: "verify_action self None n True (at_address self b w) = (Return (), w2)" and
    r: "verify_run self xs w2 = (Return x, w1)"
    by (auto simp: p and_then_def split: prod.splits result.splits)
  show ?case
  proof (cases "(a, nm) = (b, n)")
    case True
    have "registered self b n w2"
      using verify_action_registered [OF v] by (simp add: at_address_def upd_session_def)
    then show ?thesis using verify_run_keeps_registered [OF r] True by simp
  next
    case False
    then have "(a, nm) \<in> set xs" using Cons.prems(2) p by auto
    then show ?thesis using Cons.IH [OF r] by simp
  qed
qed

lemma verify_run_again:
  "(\<forall>(a, nm) \<in> set xs. registered self a nm w) \<Longrightarrow>
   \<exists>w1. verify_run self xs w = (Return (), w1) \<and>
        actions (sessions w1 self) = actions (sessions w self) \<and>
        action_names (sessions w1 self) = action_names (sessions w self)"
proof (induction xs arbitrary: w)
  case Nil
  then show ?case by simp
next
  case (Cons p xs)
  obtain b n where p: "p = (b, n)" by (cases p)
  have reg: "registered self b n w" using Cons.prems p by auto
  have v: "verify_action self None n True (at_address self b w) = (Return (), at_address self b w)"
    using reg by (intro verify_action_same) (simp add: at_address_def upd_session_def registered_def)
  have "\<forall>(a, nm) \<in> set xs. registered self a nm (at_address self b w)"
    using Cons.prems by auto
  from Cons.IH [OF this] show ?case
    by (auto simp: p v and_then_def)
qed

text \<open>
  Claim C2. The first verification at an address registers the address with the name.
  From then on a verification at that address with the same name returns and changes
  nothing, and one with another name raises the error that carries the address, the
  expected name and the received one; a verification that returns leaves every
  registration in place. So a run of verifications that went through goes through
  again, on the registry it left, without changing it.
\<close>

theorem verify_action_registry:
  "(actions (sessions w self) (action_indices (sessions w self)) = None \<longrightarrow>
      (\<exists>w1. verify_action self act nm True w = (Return (), w1) \<and>
            registered self (action_indices (sessions w self)) nm w1 \<and>
            action_indices (sessions w1 self) = action_indices (sessions w self))) \<and>
   (registered self (action_indices (sessions w self)) nm w \<longrightarrow>
      verify_action self act nm True w = (Return (), w)) \<and>
   (registered self (action_indices (sessions w self)) expected w \<and> nm \<noteq> expected \<longrightarrow>
      verify_action self act nm True w =
        (Raise (WrongMeasurement (action_indices (sessions w self)) expected nm), w)) \<and>
   (registered self a n w \<and> verify_action self act nm True w = (Return (), w2) \<longrightarrow>
      registered self a n w2) \<and>
   (verify_run self xs w = (Return (), w3) \<longrightarrow>
      (\<exists>w4. verify_run self xs w3 = (Return (), w4) \<and>
            actions (sessions w4 self) = actions (sessions w3 self) \<and>
            action_names (sessions w4 self) = action_names (sessions w3 self)))"
proof (intro conjI impI)
  assume "actions (sessions w self) (action_indices (sessions w self)) = None"
  then show "\<exists>w1. verify_action self act nm True w = (Return (), w1) \<and>
            registered self (action_indices (sessions w self)) nm w1 \<and>
            action_indices (sessions w1 self) = action_indices (sessions w self)"
    by (simp add: verify_action_first registered_def upd_session_def)
next
  assume "registered self (action_indices (sessions w self)) nm w"
  then show "verify_action self act nm True w = (Return (), w)"
    by (rule verify_action_same)
next
  assume "registered self (action_indices (sessions w self)) expected w \<and> nm \<noteq> expected"
  then show "verify_action self act nm True w =
        (Raise (WrongMeasurement (action_indices (sessions w self)) expected nm), w)"
    by (simp add: verify_action_other)
next
  assume "registered self a n w \<and> verify_action self act nm True w = (Return (), w2)"
  then show "registered self a n w2"
    using verify_action_keeps_registered by blast
next
  assume run: "verify_run self xs w = (Return (), w3)"
  have "\<forall>(a, nm) \<in> set xs. registered self a nm w3"
    using verify_run_registers [OF run] by auto
  then show "\<exists>w4. verify_run self xs w3 = (Return (), w4) \<and>
            actions (sessions w4 self) = actions (sessions w3 self) \<and>
            action_names (sessions w4 self) = action_names (sessions w3 self)"
    by (rule verify_run_again)
qed

lemma registered_world_fields:
  "action_indices (sessions registered_world 0) = [0]"
  "registered 0 [0] ''x'' registered_world"
  "running_measurement registered_world = Some 0"
  unfolding registered_world_def
  by (simp_all add: verify_action_first started_world_fields upd_session_def registered_def)

theorem verify_action_registry_witness:
  "actions (sessions started_world 0) (action_indices (sessions started_world 0)) = None \<and>
   (\<exists>w1. verify_action 0 None ''x'' True started_world = (Return (), w1) \<and>
         registered 0 [0] ''x'' w1) \<and>
   registered 0 (action_indices (sessions registered_world 0)) ''x'' registered_world \<and>
   verify_action 0 None ''x'' True registered_world = (Return (), registered_world) \<and>
   verify_action 0 None ''z'' True registered_world =
     (Raise (WrongMeasurement [0] ''x'' ''z''), registered_world) \<and>
   verify_run 0 [([0], ''x''), ([1], ''y'')] started_world =
     (Return (), snd (verify_run 0 [([0], ''x''), ([1], ''y'')] started_world)) \<and>
   (\<exists>w4. verify_run 0 [([0], ''x''), ([1], ''y'')]
           (snd (verify_run 0 [([0], ''x''), ([1], ''y'')] started_world)) = (Return (), w4))"
proof -
  have h1: "actions (sessions started_world 0) (action_indices (sessions started_world 0)) = None"
    by (simp add: started_world_fields)
  have h2: "registered 0 (action_indices (sessions registered_world 0)) ''x'' registered_world"
    by (simp add: registered_world_fields)
  have h3: "verify_run 0 [([0], ''x''), ([1], ''y'')] started_world =
     (Return (), snd (verify_run 0 [([0], ''x''), ([1], ''y'')] started_world))"
    by (simp add: and_then_def verify_action_def Let_def at_address_def upd_session_def
          started_world_fields)
  note t1 = verify_action_registry [where w = started_world and self = 0 and act = None
        and nm = "''x''" and expected = "''x''" and a = "[]" and n = "[]"
        and ?w2.0 = started_world and xs = "[([0], ''x''), ([1], ''y'')]"
        and ?w3.0 = "snd (verify_run 0 [([0], ''x''), ([1], ''y'')] started_world)"]
  note t2 = verify_action_registry [where w = registered_world and self = 0 and act = None
        and nm = "''x''" and expected = "''x''" and a = "[]" and n = "[]"
        and ?w2.0 = started_world and xs = "[]" and ?w3.0 = registered_world]
  note t3 = verify_action_registry [where w = registered_world and self = 0 and act = None
        and nm = "''z''" and expected = "''x''" and a = "[]" and n = "[]"
        and ?w2.0 = started_world and xs = "[]" and ?w3.0 = registered_world]
  have c1: "\<exists>w1. verify_action 0 None ''x'' True started_world = (Return (), w1) \<and>
         registered 0 [0] ''x'' w1"
    using t1 [THEN conjunct1] h1 by (auto simp: started_world_fields)
  have c2: "verify_action 0 None ''x'' True registered_world = (Return (), registered_world)"
    using t2 [THEN conjunct2, THEN conjunct1] h2 by simp
  have c2': "verify_action 0 None ''z'' True registered_world =
        (Raise (WrongMeasurement [0] ''x'' ''z''), registered_world)"
    using t3 [THEN conjunct2, THEN conjunct2, THEN conjunct1] h2
    by (simp add: registered_world_fields)
  have c3: "\<exists>w4. verify_run 0 [([0], ''x''), ([1], ''y'')]
           (snd (verify_run 0 [([0], ''x''), ([1], ''y'')] started_world)) = (Return (), w4)"
    using t1 [THEN conjunct2, THEN conjunct2, THEN conjunct2, THEN conjunct2] h3
    by blast
  show ?thesis using h1 h2 h3 c1 c2 c2' c3 by (intro conjI)
qed

subsection \<open>Moving the action indices\<close>

text \<open>
  Claim C8, as the source has it. \<^verbatim>\<open>skip(N)\<close> and \<^verbatim>\<open>revert(N)\<close> take no address: they
  replace the action indices of the running measurement by the same indices with \<open>N\<close>
  added to, or subtracted from, the last one, and return the new indices. Nothing else
  in the store changes, whichever measurement the method is called on.
\<close>

theorem skip_revert_move_running_address:
  "running_measurement w = Some r \<Longrightarrow> action_indices (sessions w r) \<noteq> [] \<Longrightarrow>
   skip self N w =
     (Return (butlast (action_indices (sessions w r)) @ [last (action_indices (sessions w r)) + N]),
      upd_session r (\<lambda>s. s\<lparr>action_indices :=
         butlast (action_indices (sessions w r)) @ [last (action_indices (sessions w r)) + N]\<rparr>) w)
   \<and> revert self N w =
     (Return (butlast (action_indices (sessions w r)) @ [last (action_indices (sessions w r)) - N]),
      upd_session r (\<lambda>s. s\<lparr>action_indices :=
         butlast (action_indices (sessions w r)) @ [last (action_indices (sessions w r)) - N]\<rparr>) w)"
  by (auto simp: skip_def skip_here_def revert_def revert_here_def adjust_last_def Let_def)

theorem skip_revert_move_running_address_witness:
  "running_measurement started_world = Some 0 \<and>
   action_indices (sessions started_world 0) \<noteq> [] \<and>
   fst (skip 7 2 started_world) = Return [2] \<and>
   action_indices (sessions (snd (skip 7 2 started_world)) 0) = [2] \<and>
   fst (revert 0 1 started_world) = Return [-1]"
  using skip_revert_move_running_address [of started_world 0 7 2]
    skip_revert_move_running_address [of started_world 0 0 1]
  by (simp add: started_world_fields upd_session_def)

text \<open>
  The claim as stated, that skip is a pure function over an address which modifies no
  session state, fails: after \<^verbatim>\<open>skip()\<close> on a measurement just entered, its action
  indices are \<open>(1,)\<close> and no longer \<open>(0,)\<close>.
\<close>

theorem skip_modifies_session_counterexample:
  "action_indices (sessions started_world 0) = [0] \<and>
   action_indices (sessions (snd (skip 0 1 started_world)) 0) = [1] \<and>
   snd (skip 0 1 started_world) \<noteq> started_world"
proof -
  have a: "action_indices (sessions started_world 0) = [0]"
    by (simp add: started_world_fields)
  have b: "action_indices (sessions (snd (skip 0 1 started_world)) 0) = [1]"
    by (simp add: started_world_fields skip_def skip_here_def adjust_last_def upd_session_def)
  from a b have "snd (skip 0 1 started_world) \<noteq> started_world" by auto
  with a b show ?thesis by simp
qed

subsection \<open>Measuring a bare value\<close>

lemma supported_simps [simp]:
  "supported (Return x, w)"
  "supported (Raise e, w) = (e \<noteq> UnsupportedType)"
  "supported (Hang, w)"
  by (simp_all add: supported_def)






















subsection \<open>Masking\<close>

lemma write_target_accepts [simp]:
  "accepts (snd (write_target t v w)) = accepts w"
  "sessions (snd (write_target t v w)) = sessions w"
  by (simp_all add: write_target_def)

lemma restore_each_unguarded:
  "restore_each False rs w =
     (Return (),
      w\<lparr>cells := write_cells (map restore_write (filter (restorable w) rs)) (cells w),
        journal := journal w @ map restore_write (filter (restorable w) rs),
        msmt_log := msmt_log w @ map unmask_failure (filter (\<lambda>r. \<not> restorable w r) rs)\<rparr>)"
proof (induction rs arbitrary: w)
  case Nil
  then show ?case by (simp add: write_cells_def)
next
  case (Cons r rs)
  show ?case
  proof (cases "restorable w r")
    case True
    then have "restore_one False r w =
        (Return (), w\<lparr>cells := (cells w)(m_target r \<mapsto> original_value r),
                      journal := journal w @ [restore_write r]\<rparr>)"
      by (simp add: restore_one_def write_target_def restorable_def restore_write_def)
    then show ?thesis using True
      by (simp add: Cons.IH restorable_def write_cells_def restore_write_def)
  next
    case False
    then have "restore_one False r w =
        (Return (), w\<lparr>msmt_log := msmt_log w @ [unmask_failure r]\<rparr>)"
      by (simp add: restore_one_def write_target_def restorable_def unmask_failure_def
            is_Exception_def)
    then show ?thesis using False
      by (simp add: Cons.IH restorable_def)
  qed
qed

lemma unmask_all_eq:
  "unmask_all self w =
     (Return (),
      upd_session self (\<lambda>s. s\<lparr>masked_properties := []\<rparr>)
        (w\<lparr>cells := write_cells (map restore_write
                      (filter (restorable w) (rev (masked_properties (sessions w self))))) (cells w),
          journal := journal w @ map restore_write
                      (filter (restorable w) (rev (masked_properties (sessions w self)))),
          msmt_log := msmt_log w @ map unmask_failure
                      (filter (\<lambda>r. \<not> restorable w r) (rev (masked_properties (sessions w self))))\<rparr>))"
  by (simp add: unmask_all_def restore_each_unguarded)




lemma write_cells_append:
  "write_cells (ws @ ws') c = write_cells ws' (write_cells ws c)"
  by (simp add: write_cells_def)


lemma push_mask_outcome:
  "(\<exists>x. fst (push_mask self t v w) = Return x) \<or> (\<exists>e. fst (push_mask self t v w) = Raise e)"
  by (simp add: push_mask_def write_target_def split: option.splits)












lemma restore_one_frame [simp]:
  "accepts (snd (restore_one b r w)) = accepts w"
  "sessions (snd (restore_one b r w)) = sessions w"
  by (simp_all add: restore_one_def write_target_def Let_def)

lemma restorable_restore_one [simp]:
  "restorable (snd (restore_one b r w)) = restorable w"
  by (simp add: restorable_def [abs_def])




lemma write_cells_simps [simp]:
  "write_cells [] c = c"
  "write_cells ((t, v) # ws) c = write_cells ws (c(t \<mapsto> v))"
  by (simp_all add: write_cells_def)






subsection \<open>The running measurement\<close>

lemma leaves_simps [simp]:
  "leaves P (res, w) = P w"
  by (simp add: leaves_def)

lemma leaves_and_then:
  "leaves P m \<Longrightarrow> (\<And>x w. P w \<Longrightarrow> leaves P (f x w)) \<Longrightarrow> leaves P (and_then m f)"
  by (cases m; cases "fst m") (auto simp: and_then_def leaves_def)

lemma leaves_if:
  "(c \<Longrightarrow> leaves P a) \<Longrightarrow> (\<not> c \<Longrightarrow> leaves P b) \<Longrightarrow> leaves P (if c then a else b)"
  by simp

lemma leaves_option:
  "(x = None \<Longrightarrow> leaves P a) \<Longrightarrow> (\<And>y. x = Some y \<Longrightarrow> leaves P (b y)) \<Longrightarrow>
   leaves P (case x of None \<Rightarrow> a | Some y \<Rightarrow> b y)"
  by (cases x) simp_all

lemmas leaves_intros = leaves_and_then leaves_if leaves_option

lemma upd_session_fields [simp]:
  "running_measurement (upd_session i f w) = running_measurement w"
  "action_trace (upd_session i f w) = action_trace w"
  "measurement_thread (upd_session i f w) = measurement_thread w"
  "cells (upd_session i f w) = cells w"
  "accepts (upd_session i f w) = accepts w"
  "journal (upd_session i f w) = journal w"
  "msmt_log (upd_session i f w) = msmt_log w"
  "new_data_ok (upd_session i f w) = new_data_ok w"
  "sessions (upd_session i f w) = (sessions w)(i := f (sessions w i))"
  by (simp_all add: upd_session_def)

lemma set_dataset_fields [simp]:
  "running_measurement (set_dataset i d w) = running_measurement w"
  "action_trace (set_dataset i d w) = action_trace w"
  "measurement_thread (set_dataset i d w) = measurement_thread w"
  by (simp_all add: set_dataset_def)

lemma cleared_updates [simp]:
  "cleared w0 (upd_session i f w) = cleared w0 w"
  "cleared w0 (set_dataset i d w) = cleared w0 w"
  "cleared w0 (w\<lparr>msmt_log := lg\<rparr>) = cleared w0 w"
  "cleared w0 (w\<lparr>class_except_actions := hs\<rparr>) = cleared w0 w"
  by (simp_all add: cleared_def)

lemma cleared_trace:
  "cleared w0 w \<Longrightarrow> cleared w0 (w\<lparr>action_trace := action_trace w @ [(n, running_measurement w)]\<rparr>)"
  by (auto simp: cleared_def)

lemma cleared_start:
  "cleared (w\<lparr>running_measurement := None\<rparr>) w' \<Longrightarrow> cleared w w'"
  by (simp add: cleared_def)

lemma cleared_refl: "running_measurement w = None \<Longrightarrow> cleared w w"
  by (simp add: cleared_def)

lemma apply_actions_cleared:
  "cleared w0 w \<Longrightarrow> leaves (cleared w0) (apply_actions hs label w)"
proof (induction hs arbitrary: w)
  case Nil
  then show ?case by simp
next
  case (Cons h hs)
  obtain n exc where h: "h = Hook n exc" by (cases h)
  have c: "cleared w0 (w\<lparr>action_trace := action_trace w @ [(n, running_measurement w)]\<rparr>)"
    using Cons.prems by (rule cleared_trace)
  show ?case
    using Cons.IH [OF c] Cons.IH [of "w\<lparr>action_trace := action_trace w @ [(n, running_measurement w)],
         msmt_log := msmt_log w @ [LogActionFailed label n]\<rparr>"] c
    by (cases exc) (simp_all add: h Let_def)
qed

lemma the_dataset_leaves: "P w \<Longrightarrow> leaves P (the_dataset i w)"
  by (simp add: the_dataset_def split: option.splits)

lemma add_metadata_cleared: "cleared w0 w \<Longrightarrow> leaves (cleared w0) (add_metadata i m w)"
  unfolding add_metadata_def
  by (intro leaves_intros the_dataset_leaves) simp_all

lemma unmask_all_cleared: "cleared w0 w \<Longrightarrow> leaves (cleared w0) (unmask_all i w)"
  by (simp add: unmask_all_eq cleared_def)

lemma close_dataset_cleared:
  "cleared w0 w \<Longrightarrow> leaves (cleared w0) (close_dataset self exc w)"
  unfolding close_dataset_def Let_def
  apply (intro leaves_intros the_dataset_leaves add_metadata_cleared)
  apply (auto simp: cleared_trace split: option.splits hook.splits)
  done


lemma msmt_exit_cleared:
  assumes "running_measurement w = Some self"
  shows "leaves (cleared w) (msmt_exit self exc w)"
proof -
  have c: "cleared w (w\<lparr>running_measurement := None\<rparr>)"
    by (simp add: cleared_def)
  show ?thesis
    unfolding msmt_exit_def Let_def
    apply (simp add: assms)
    apply (intro leaves_intros apply_actions_cleared unmask_all_cleared close_dataset_cleared)
    apply (simp_all add: c)
    done
qed

lemma initialize_metadata_running:
  "running_measurement w = r \<Longrightarrow>
   leaves (\<lambda>w. running_measurement w = r) (initialize_metadata self w)"
  unfolding initialize_metadata_def add_metadata_def
  by (intro leaves_intros the_dataset_leaves) simp_all

lemma save_metadata_running:
  "running_measurement w = r \<Longrightarrow>
   leaves (\<lambda>w. running_measurement w = r) (save_metadata self w)"
  unfolding save_metadata_def
  by (intro leaves_intros the_dataset_leaves) simp_all

lemma enter_body_outermost:
  assumes "running_measurement w = None"
  shows "leaves (\<lambda>w. running_measurement w = Some self) (enter_body cur self w)"
  unfolding enter_body_def Let_def
  apply (intro leaves_intros initialize_metadata_running save_metadata_running)
  apply (simp_all add: assms)
  done

lemma avoids_simps [simp]:
  "avoids e (Return x, w)"
  "avoids e (Raise e', w) = (e' \<noteq> e)"
  "avoids e (Hang, w)"
  by (simp_all add: avoids_def)

lemma avoids_and_then:
  "avoids e m \<Longrightarrow> (\<And>x w. avoids e (f x w)) \<Longrightarrow> avoids e (and_then m f)"
  by (cases m; cases "fst m") (auto simp: and_then_def avoids_def)

lemma avoids_if:
  "(c \<Longrightarrow> avoids e a) \<Longrightarrow> (\<not> c \<Longrightarrow> avoids e b) \<Longrightarrow> avoids e (if c then a else b)"
  by simp

lemma avoids_option:
  "(x = None \<Longrightarrow> avoids e a) \<Longrightarrow> (\<And>y. x = Some y \<Longrightarrow> avoids e (b y)) \<Longrightarrow>
   avoids e (case x of None \<Rightarrow> a | Some y \<Rightarrow> b y)"
  by (cases x) simp_all

lemmas avoids_intros = avoids_and_then avoids_if avoids_option

lemma enter_body_no_wrong_thread:
  assumes "running_measurement w = None"
  shows "avoids WrongThread (enter_body cur self w)"
  unfolding enter_body_def Let_def initialize_metadata_def add_metadata_def save_metadata_def
    the_dataset_def
  apply (intro avoids_intros)
  apply (simp_all add: assms)
  done

lemma msmt_enter_outermost:
  assumes "running_measurement w = None"
  shows "(fst (msmt_enter cur self w) = Return () \<longrightarrow>
            running_measurement (snd (msmt_enter cur self w)) = Some self) \<and>
         (fst (msmt_enter cur self w) = Raise e \<longrightarrow>
            running_measurement (snd (msmt_enter cur self w)) = None) \<and>
         fst (msmt_enter cur self w) \<noteq> Raise WrongThread"
proof -
  let ?w = "upd_session self (\<lambda>s. s\<lparr>is_context_manager := True\<rparr>) w"
  have r: "running_measurement ?w = None" using assms by simp
  obtain res w1 where b: "enter_body cur self ?w = (res, w1)"
    by (cases "enter_body cur self ?w")
  have 1: "running_measurement w1 = Some self"
    using enter_body_outermost [OF r, of self cur] b by simp
  have 2: "res \<noteq> Raise WrongThread"
    using enter_body_no_wrong_thread [OF r, of cur self] b by (simp add: avoids_def)
  show ?thesis
    using 1 2 by (cases res) (simp_all add: msmt_enter_def b)
qed

text \<open>
  Claim C10. When \<^verbatim>\<open>__enter__\<close> of an outermost measurement (no measurement is running)
  raises, no measurement is running afterwards. When \<^verbatim>\<open>__exit__\<close> of the running
  measurement is over, however it ends, no measurement is running, and every except
  and final action it ran, and the notification, saw no running measurement. So the
  next \<^verbatim>\<open>__enter__\<close>, on any thread, does not raise the error of a measurement running
  in another thread, and if it returns, the measurement it entered is the running one.
\<close>

theorem running_pointer_never_stale:
  "(running_measurement w = None \<and> fst (msmt_enter cur self w) = Raise e \<longrightarrow>
      running_measurement (snd (msmt_enter cur self w)) = None) \<and>
   (running_measurement w = Some self \<longrightarrow>
      running_measurement (snd (msmt_exit self exc w)) = None \<and>
      (\<exists>tr. action_trace (snd (msmt_exit self exc w)) = action_trace w @ tr \<and>
            list_all (\<lambda>x. snd x = None) tr) \<and>
      fst (msmt_enter cur' other (snd (msmt_exit self exc w))) \<noteq> Raise WrongThread \<and>
      (fst (msmt_enter cur' other (snd (msmt_exit self exc w))) = Return () \<longrightarrow>
         running_measurement (snd (msmt_enter cur' other (snd (msmt_exit self exc w)))) =
           Some other))"
proof (intro conjI impI)
  assume "running_measurement w = None \<and> fst (msmt_enter cur self w) = Raise e"
  then show "running_measurement (snd (msmt_enter cur self w)) = None"
    using msmt_enter_outermost [of w cur self e] by simp
next
  assume r: "running_measurement w = Some self"
  have c: "cleared w (snd (msmt_exit self exc w))"
    using msmt_exit_cleared [OF r, of exc] by (simp add: leaves_def)
  then show n: "running_measurement (snd (msmt_exit self exc w)) = None"
    by (simp add: cleared_def)
  show "\<exists>tr. action_trace (snd (msmt_exit self exc w)) = action_trace w @ tr \<and>
            list_all (\<lambda>x. snd x = None) tr"
    using c by (simp add: cleared_def)
  show "fst (msmt_enter cur' other (snd (msmt_exit self exc w))) \<noteq> Raise WrongThread"
    using msmt_enter_outermost [OF n] by simp
  assume "fst (msmt_enter cur' other (snd (msmt_exit self exc w))) = Return ()"
  then show "running_measurement (snd (msmt_enter cur' other (snd (msmt_exit self exc w)))) =
           Some other"
    using msmt_enter_outermost [OF n] by simp
qed


lemma hooked_world_fields:
  "running_measurement hooked_world = Some 0"
  "action_trace hooked_world = []"
  by (simp_all add: hooked_world_def started_world_fields)
     (simp add: started_world_def eval_defs enter_defs)

lemma hooked_world_exit:
  "fst (msmt_exit 0 None hooked_world) = Raise StopRequested"
  "action_trace (snd (msmt_exit 0 None hooked_world)) = [(1, None), (2, None)]"
  "new_data_ok (snd (msmt_exit 0 None hooked_world))"
  "force_cell_thread (sessions (snd (msmt_exit 0 None hooked_world)) 5) = False"
  unfolding hooked_world_def started_world_def
  by (simp_all add: msmt_exit_def unmask_all_def is_Exception_def eval_defs enter_defs)

theorem running_pointer_never_stale_witness:
  "running_measurement failing_world = None \<and>
   fst (msmt_enter 0 0 failing_world) = Raise StorageError \<and>
   running_measurement (snd (msmt_enter 0 0 failing_world)) = None \<and>
   running_measurement hooked_world = Some 0 \<and>
   fst (msmt_exit 0 None hooked_world) = Raise StopRequested \<and>
   running_measurement (snd (msmt_exit 0 None hooked_world)) = None \<and>
   action_trace (snd (msmt_exit 0 None hooked_world)) = [(1, None), (2, None)] \<and>
   fst (msmt_enter 1 5 (snd (msmt_exit 0 None hooked_world))) = Return () \<and>
   running_measurement (snd (msmt_enter 1 5 (snd (msmt_exit 0 None hooked_world)))) = Some 5"
proof -
  have h1: "running_measurement failing_world = None"
    by (simp add: failing_world_def blank_world_def)
  have h2: "fst (msmt_enter 0 0 failing_world) = Raise StorageError"
    by (simp add: failing_world_def eval_defs enter_defs)
  have h3: "running_measurement hooked_world = Some 0"
    by (simp add: hooked_world_fields)
  note t1 = running_pointer_never_stale [where w = failing_world and cur = 0 and self = 0
      and e = StorageError and exc = None and cur' = 0 and other = 0]
  note t2 = running_pointer_never_stale [where w = hooked_world and cur = 0 and self = 0
      and e = StorageError and exc = None and cur' = 1 and other = 5]
  have c1: "running_measurement (snd (msmt_enter 0 0 failing_world)) = None"
    using t1 [THEN conjunct1] h1 h2 by simp
  have c2: "running_measurement (snd (msmt_exit 0 None hooked_world)) = None"
    using t2 [THEN conjunct2] h3 by simp
  have e: "fst (msmt_enter 1 5 (snd (msmt_exit 0 None hooked_world))) = Return ()"
    by (simp add: msmt_enter_def enter_body_def c2 hooked_world_exit and_then_def Let_def
          initialize_metadata_def add_metadata_def save_metadata_def the_dataset_def
          set_dataset_def upd_session_def)
  have c3: "running_measurement (snd (msmt_enter 1 5 (snd (msmt_exit 0 None hooked_world)))) =
      Some 5"
    using t2 [THEN conjunct2] h3 e by simp
  show ?thesis
    using h1 h2 h3 c1 c2 c3 e hooked_world_exit by (intro conjI) simp_all
qed

subsection \<open>Nested measurements and the exit\<close>





lemma push_mask_running [simp]:
  "running_measurement (snd (push_mask self t v w)) = running_measurement w"
  by (simp add: push_mask_def write_target_def split: option.splits)


lemma returns_simps [simp]:
  "returns P (Return x, w) = P w"
  "returns P (Raise e, w) = False"
  "returns P (Hang, w) = False"
  by (simp_all add: returns_def)



lemma returns_leaves: "returns P m \<Longrightarrow> leaves P m"
  by (simp add: returns_def leaves_def)


lemma upd_session_class_fields [simp]:
  "notify_function (upd_session i f w) = notify_function w"
  "class_final_actions (upd_session i f w) = class_final_actions w"
  "class_except_actions (upd_session i f w) = class_except_actions w"
  "max_arrays (upd_session i f w) = max_arrays w"
  "data_arrays_heap (upd_session i f w) = data_arrays_heap w"
  "set_arrays_heap (upd_session i f w) = set_arrays_heap w"
  "pending (upd_session i f w) = pending w"
  "sweeps (upd_session i f w) = sweeps w"
  "next_sid (upd_session i f w) = next_sid w"
  "next_sweep (upd_session i f w) = next_sweep w"
  "array_writes (upd_session i f w) = array_writes w"
  "node_parameters (upd_session i f w) = node_parameters w"
  "using_ipython (upd_session i f w) = using_ipython w"
  "executed_from_cell (upd_session i f w) = executed_from_cell w"
  "main_thread (upd_session i f w) = main_thread w"
  "station_default (upd_session i f w) = station_default w"
  by (simp_all add: upd_session_def)

lemma before_unmask_updates [simp]:
  "before_unmask self w (w'\<lparr>action_trace := tr\<rparr>) = before_unmask self w w'"
  "before_unmask self w (w'\<lparr>msmt_log := lg\<rparr>) = before_unmask self w w'"
  "before_unmask self w (w'\<lparr>class_except_actions := hs\<rparr>) = before_unmask self w w'"
  by (simp_all add: before_unmask_def)


lemma unmasked_updates [simp]:
  "unmasked self w (w'\<lparr>action_trace := tr\<rparr>) = unmasked self w w'"
  "unmasked self w (w'\<lparr>msmt_log := lg\<rparr>) = unmasked self w w'"
  by (simp_all add: unmasked_def)















subsection \<open>The ceiling on data arrays\<close>

lemma yields_simps [simp]:
  "yields P (Return x, w) = P x w"
  "yields P (Raise e, w) = False"
  "yields P (Hang, w) = False"
  by (simp_all add: yields_def)

lemma yields_and_then:
  "yields P m \<Longrightarrow> (\<And>x w. P x w \<Longrightarrow> yields Q (f x w)) \<Longrightarrow> yields Q (and_then m f)"
  by (cases m; cases "fst m") (auto simp: and_then_def yields_def)

lemma yields_Return: "yields P m \<Longrightarrow> \<exists>x. fst m = Return x"
  by (cases m; cases "fst m") (auto simp: yields_def)

lemma yields_weaken: "yields P m \<Longrightarrow> (\<And>x w. P x w \<Longrightarrow> Q x w) \<Longrightarrow> yields Q m"
  by (cases m; cases "fst m") (auto simp: yields_def)

lemma array_kwargs_ceiling:
  assumes "param \<noteq> None \<or> nm \<noteq> None" "running_measurement w = Some r"
    "arrays_ref (sessions w r) = Some k" "max_arrays w \<le> length (data_arrays_heap w k)"
  shows "array_kwargs self a result param is_setpoint nm label unit w =
     (Raise (TooManyArrays (max_arrays w)), w)"
  using assms by (auto simp: array_kwargs_def the_arrays_ref_def and_then_def)

lemma create_data_array_ceiling:
  assumes "param \<noteq> None \<or> nm \<noteq> None" "running_measurement w = Some r"
    "arrays_ref (sessions w r) = Some k" "max_arrays w \<le> length (data_arrays_heap w k)"
  shows "create_data_array self a result param is_setpoint nm label unit w =
     (Raise (TooManyArrays (max_arrays w)), w)"
  by (simp add: create_data_array_def array_kwargs_ceiling [OF assms] and_then_def)

lemma array_kwargs_yields:
  assumes "array_room r k w" "n \<noteq> []"
  shows "yields (\<lambda>da w'. w' = w \<and> da_is_setpoint da = is_setpoint)
     (array_kwargs r a result param is_setpoint (Some n) label unit w)"
  using assms
  by (auto simp: array_kwargs_def array_room_def the_arrays_ref_def and_then_def Let_def
        split: option.splits)

lemma register_array_yields:
  assumes "array_room r k w" "da_is_setpoint da"
  shows "yields (\<lambda>x w'. array_room r k w') (register_array r a da w)"
  using assms
  by (auto simp: register_array_def array_room_def the_arrays_ref_def the_dataset_def
        set_dataset_def upd_session_def and_then_def Let_def split: option.splits)

lemma register_array_returns:
  assumes "array_room r k w"
  shows "yields (\<lambda>x w'. True) (register_array r a da w)"
  using assms
  by (auto simp: register_array_def array_room_def the_arrays_ref_def the_dataset_def
        set_dataset_def upd_session_def and_then_def Let_def split: option.splits)

lemma create_set_array_yields:
  assumes "array_room r k w" "n \<noteq> []"
  shows "yields (\<lambda>x w'. array_room r k w')
     (create_set_array r a result param (Some n) label unit w)"
  unfolding create_set_array_def
  apply (rule yields_and_then [OF array_kwargs_yields [OF assms]])
  apply (rule register_array_yields)
  using assms(1) apply simp_all
  done

lemma result_set_arrays_yields:
  "array_room r k w \<Longrightarrow>
   yields (\<lambda>x w'. array_room r k w') (result_set_arrays r a shape nm ks w)"
proof (induction ks arbitrary: w)
  case Nil
  then show ?case by simp
next
  case (Cons j ks)
  have "yields (\<lambda>x w'. array_room r k w')
     (create_set_array r (a @ replicate j 0) (VArray (take (Suc j) shape)) None
          (Some (nm @ ''_set'' @ str_nat j)) None None w)"
    using Cons.prems by (rule create_set_array_yields) simp
  then show ?case
    unfolding result_set_arrays.simps
    apply (rule yields_and_then)
    apply (rule yields_and_then [OF Cons.IH])
     apply simp_all
    done
qed

lemma add_set_arrays_yields:
  assumes "array_room r k w"
  shows "yields (\<lambda>x w'. array_room r k w') (add_set_arrays r a result n param w)"
proof -
  have 1: "yields (\<lambda>x w'. w' = w)
       (if 1 < length a
        then and_then (the_arrays_ref r w)
               (\<lambda>k w. (Return (sweep_set_arrays (set_arrays_heap w k) a), w))
        else (Return [], w))"
    using assms by (simp add: the_arrays_ref_def array_room_def and_then_def)
  have 2: "\<And>s0. yields (\<lambda>x w'. array_room r k w')
       (if is_ndarray result
             then and_then
                    (result_set_arrays r a (np_shape result) n
                       [0..<length (np_shape result)] w)
                    (\<lambda>arrs w. (Return (s0 @ arrs), w))
             else (Return s0, w))"
  proof -
    fix s0
    have "yields (\<lambda>x w'. array_room r k w')
        (and_then (result_set_arrays r a (np_shape result) n [0..<length (np_shape result)] w)
                    (\<lambda>arrs w. (Return (s0 @ arrs), w)))"
      by (rule yields_and_then [OF result_set_arrays_yields [OF assms]]) simp
    then show "yields (\<lambda>x w'. array_room r k w')
       (if is_ndarray result
             then and_then
                    (result_set_arrays r a (np_shape result) n
                       [0..<length (np_shape result)] w)
                    (\<lambda>arrs w. (Return (s0 @ arrs), w))
             else (Return s0, w))"
      using assms by simp
  qed
  have 3: "\<And>s1 w. array_room r k w \<Longrightarrow> yields (\<lambda>x w'. array_room r k w')
       (if s1 = [] \<and> loop_indices (sessions w r) = [] then
                 (case running_measurement w of
                    None \<Rightarrow> (Raise AttributeError, w)
                  | Some r' \<Rightarrow>
                      and_then
                        (create_set_array r (action_indices (sessions w r')) result None
                           (Some ''None'') None None w)
                        (\<lambda>arr w.
                           (Return [arr],
                            w\<lparr>array_writes := array_writes w @
                                [(da_array_id arr, [0], VInt 1)]\<rparr>)))
               else (Return s1, w))"
  proof -
    fix s1 w
    assume r: "array_room r k w"
    have "yields (\<lambda>x w'. array_room r k w')
        (and_then
            (create_set_array r (action_indices (sessions w r)) result None
               (Some ''None'') None None w)
            (\<lambda>arr w. (Return [arr],
                  w\<lparr>array_writes := array_writes w @ [(da_array_id arr, [0], VInt 1)]\<rparr>)))"
      apply (rule yields_and_then [OF create_set_array_yields [OF r]])
       apply (simp_all add: array_room_def)
      done
    then show "yields (\<lambda>x w'. array_room r k w')
       (if s1 = [] \<and> loop_indices (sessions w r) = [] then
                 (case running_measurement w of
                    None \<Rightarrow> (Raise AttributeError, w)
                  | Some r' \<Rightarrow>
                      and_then
                        (create_set_array r (action_indices (sessions w r')) result None
                           (Some ''None'') None None w)
                        (\<lambda>arr w.
                           (Return [arr],
                            w\<lparr>array_writes := array_writes w @
                                [(da_array_id arr, [0], VInt 1)]\<rparr>)))
               else (Return s1, w))"
      using r by (simp add: array_room_def)
  qed
  show ?thesis
    unfolding add_set_arrays_def
    apply (rule yields_and_then [OF 1])
    apply (rule yields_and_then)
     apply (simp only:)
     apply (rule 2)
    apply (rule 3)
    apply assumption
    done
qed

lemma and_then_Return: "and_then (Return x, w) f = f x w"
  by (simp add: and_then_def)

lemma create_data_array_yields:
  assumes "array_room r k w" "n \<noteq> []"
  shows "yields (\<lambda>x w'. True)
     (create_data_array r a result param is_setpoint (Some n) label unit w)"
  unfolding create_data_array_def
proof (rule yields_and_then [OF array_kwargs_yields [OF assms]])
  fix da :: data_array and w' :: world
  assume "w' = w \<and> da_is_setpoint da = is_setpoint"
  then have w': "w' = w" by simp
  have nm: "name_or_parameter (Some n) param w = (Return n, w)"
    using assms(2) by (cases n) (simp_all add: name_or_parameter_def)
  have "yields (\<lambda>x w'. True)
      (and_then (add_set_arrays r a result n param w)
         (\<lambda>arrs w. register_array r a (da\<lparr>da_set_arrays := map da_array_id arrs\<rparr>) w))"
    by (rule yields_and_then [OF add_set_arrays_yields [OF assms(1)]])
       (erule register_array_returns)
  then show "yields (\<lambda>x w'. True)
      (if \<not> is_setpoint then
            and_then (name_or_parameter (Some n) param w')
              (\<lambda>n w. and_then (add_set_arrays r a result n param w)
                 (\<lambda>arrs w.
                    register_array r a (da\<lparr>da_set_arrays := map da_array_id arrs\<rparr>) w))
          else register_array r a da w')"
    using register_array_returns [OF assms(1), of a da]
    by (simp add: w' nm and_then_Return)
qed

lemma capped_world_fields:
  "max_arrays capped_world = 1"
  "running_measurement capped_world = Some 0"
  "arrays_ref (sessions capped_world 0) = Some 0"
  "data_arrays_heap capped_world 0 = []"
  "length (set_arrays_heap capped_world 0) = 1"
  "dataset (sessions capped_world 0) \<noteq> None"
  "length (ds_arrays (the (dataset (sessions capped_world 0)))) = 1"
  unfolding capped_world_def started_world_def
  by (simp_all add: eval_defs enter_defs)

text \<open>
  Claim C7, as the source has it. The ceiling counts the measured arrays, the entries
  of the \<^verbatim>\<open>data_arrays\<close> of the running measurement; setpoint arrays go to
  \<^verbatim>\<open>set_arrays\<close> and are not counted. When \<^verbatim>\<open>data_arrays\<close> holds \<^verbatim>\<open>max_arrays\<close> arrays
  or more, creating a data array (given a parameter or a name) raises the error of too
  many arrays and changes nothing. When it holds fewer, creating an array with a name
  that is not empty on the running measurement, which has its dataset, returns the new
  array.
\<close>

theorem create_data_array_ceiling_on_measured_arrays:
  assumes "running_measurement w = Some r" "arrays_ref (sessions w r) = Some k"
  shows "(max_arrays w \<le> length (data_arrays_heap w k) \<and> (param \<noteq> None \<or> nm \<noteq> None) \<longrightarrow>
            create_data_array self a result param is_setpoint nm label unit w =
              (Raise (TooManyArrays (max_arrays w)), w)) \<and>
         (length (data_arrays_heap w k) < max_arrays w \<and> n \<noteq> [] \<and>
          dataset (sessions w r) \<noteq> None \<longrightarrow>
            (\<exists>da. fst (create_data_array r a result param is_setpoint (Some n) label unit w) =
                    Return da))"
proof (intro conjI impI)
  assume "max_arrays w \<le> length (data_arrays_heap w k) \<and> (param \<noteq> None \<or> nm \<noteq> None)"
  then show "create_data_array self a result param is_setpoint nm label unit w =
              (Raise (TooManyArrays (max_arrays w)), w)"
    using create_data_array_ceiling [OF _ assms] by simp
next
  assume "length (data_arrays_heap w k) < max_arrays w \<and> n \<noteq> [] \<and>
          dataset (sessions w r) \<noteq> None"
  then have "array_room r k w" and "n \<noteq> []"
    using assms by (simp_all add: array_room_def)
  then show "\<exists>da. fst (create_data_array r a result param is_setpoint (Some n) label unit w) =
                    Return da"
    using yields_Return create_data_array_yields by blast
qed

text \<open>
  The claim as stated counts setpoint arrays too, and that fails: with a ceiling of one
  array and one setpoint array created, the total has reached the ceiling, and both a
  measured array and a further setpoint array are still created.
\<close>

theorem setpoint_arrays_not_counted_counterexample:
  "max_arrays capped_world = 1 \<and>
   length (set_arrays_heap capped_world 0) = 1 \<and>
   length (ds_arrays (the (dataset (sessions capped_world 0)))) = 1 \<and>
   (\<exists>da. fst (create_data_array 0 [0, 0] (VFloat 1) None False (Some ''y'') None None
                capped_world) = Return da) \<and>
   (\<exists>da. fst (create_data_array 0 [1] (VArray [2]) None True (Some ''z'') None None
                capped_world) = Return da)"
proof -
  have r: "array_room 0 0 capped_world"
    by (simp add: array_room_def capped_world_fields)
  have 1: "\<exists>da. fst (create_data_array 0 [0, 0] (VFloat 1) None False (Some ''y'') None None
                capped_world) = Return da"
    using yields_Return [OF create_data_array_yields [OF r]] by simp
  have 2: "\<exists>da. fst (create_data_array 0 [1] (VArray [2]) None True (Some ''z'') None None
                capped_world) = Return da"
    using yields_Return [OF create_data_array_yields [OF r]] by simp
  show ?thesis using capped_world_fields(1,5,7) 1 2 by (intro conjI)
qed

theorem create_data_array_ceiling_on_measured_arrays_witness:
  "running_measurement capped_world = Some 0 \<and>
   arrays_ref (sessions capped_world 0) = Some 0 \<and>
   length (data_arrays_heap capped_world 0) < max_arrays capped_world \<and>
   (\<exists>da. fst (create_data_array 0 [0, 0] (VFloat 1) None False (Some ''y'') None None
                capped_world) = Return da) \<and>
   max_arrays (capped_world\<lparr>max_arrays := 0\<rparr>) \<le>
     length (data_arrays_heap (capped_world\<lparr>max_arrays := 0\<rparr>) 0) \<and>
   create_data_array 0 [0, 0] (VFloat 1) None False (Some ''y'') None None
       (capped_world\<lparr>max_arrays := 0\<rparr>) =
     (Raise (TooManyArrays 0), capped_world\<lparr>max_arrays := 0\<rparr>)"
proof -
  have h1: "running_measurement capped_world = Some 0"
    and h2: "arrays_ref (sessions capped_world 0) = Some 0"
    and h3: "length (data_arrays_heap capped_world 0) < max_arrays capped_world"
    and h4: "dataset (sessions capped_world 0) \<noteq> None"
    by (simp_all add: capped_world_fields)
  have g1: "running_measurement (capped_world\<lparr>max_arrays := 0\<rparr>) = Some 0"
    and g2: "arrays_ref (sessions (capped_world\<lparr>max_arrays := 0\<rparr>) 0) = Some 0"
    and g3: "max_arrays (capped_world\<lparr>max_arrays := 0\<rparr>) \<le>
     length (data_arrays_heap (capped_world\<lparr>max_arrays := 0\<rparr>) 0)"
    by (simp_all add: capped_world_fields)
  note t1 = create_data_array_ceiling_on_measured_arrays [OF h1 h2, where param = None
      and nm = None and n = "''y''" and a = "[0, 0]" and result = "VFloat 1"
      and is_setpoint = False and label = None and unit = None and self = 0]
  note t2 = create_data_array_ceiling_on_measured_arrays [OF g1 g2, where param = None
      and nm = "Some ''y''" and n = "''y''" and a = "[0, 0]" and result = "VFloat 1"
      and is_setpoint = False and label = None and unit = None and self = 0]
  have c1: "\<exists>da. fst (create_data_array 0 [0, 0] (VFloat 1) None False (Some ''y'') None None
                capped_world) = Return da"
    using t1 [THEN conjunct2] h3 h4 by simp
  have c2: "create_data_array 0 [0, 0] (VFloat 1) None False (Some ''y'') None None
       (capped_world\<lparr>max_arrays := 0\<rparr>) =
     (Raise (TooManyArrays 0), capped_world\<lparr>max_arrays := 0\<rparr>)"
    using t2 [THEN conjunct1] g3 by simp
  show ?thesis using h1 h2 h3 c1 g3 c2 by (intro conjI)
qed

end
